theory Spec2Isabelle
  imports Complex_Main
begin

section \<open>Errors, notifications and the data model\<close>

text \<open>
  The error classes the event handlers and the jobs raise. The classes themselves
  live in \<^verbatim>\<open>src/errors.ts\<close>; the handlers construct \<^verbatim>\<open>EventError(message, event)\<close>,
  the pin job constructs \<^verbatim>\<open>HashExceedsSizeError(message, size, expectedSize)\<close>, and the
  stop handler compares \<^verbatim>\<open>e.code\<close> with \<^verbatim>\<open>NotPinnedError.code\<close>. \<open>TimeoutError\<close>
  is an error whose \<^verbatim>\<open>name\<close> is \<^verbatim>\<open>'TimeoutError'\<close>; \<open>Error\<close> is a plain
  JavaScript \<^verbatim>\<open>Error\<close> with its message.
\<close>

datatype error =
    EventError string string
  | NotPinnedError string
  | HashExceedsSizeError string int int
  | TimeoutError string
  | Error string

text \<open>\<^verbatim>\<open>e.code === NotPinnedError.code\<close>: the static code identifies the class.\<close>

fun hasNotPinnedCode :: "error \<Rightarrow> bool" where
  "hasNotPinnedCode (NotPinnedError m) = True"
| "hasNotPinnedCode (EventError m ev) = False"
| "hasNotPinnedCode (HashExceedsSizeError m s x) = False"
| "hasNotPinnedCode (TimeoutError m) = False"
| "hasNotPinnedCode (Error m) = False"

text \<open>\<^verbatim>\<open>e.name === 'TimeoutError'\<close>.\<close>

fun hasTimeoutName :: "error \<Rightarrow> bool" where
  "hasTimeoutName (TimeoutError m) = True"
| "hasTimeoutName (NotPinnedError m) = False"
| "hasTimeoutName (EventError m ev) = False"
| "hasTimeoutName (HashExceedsSizeError m s x) = False"
| "hasTimeoutName (Error m) = False"

text \<open>The notification codes used by the handlers and by the job tests.\<close>

datatype MessageCodesEnum =
    I_AGREEMENT_NEW
  | I_AGREEMENT_STOPPED
  | I_HASH_START
  | I_HASH_PINNED
  | W_HASH_RETRY
  | E_GENERAL
  | E_AGREEMENT_SIZE_LIMIT_EXCEEDED

text \<open>
  The Agreement row. The columns are the ones the handlers write in
  \<^verbatim>\<open>NewAgreement\<close> (the model class is in \<^verbatim>\<open>models/agreement.model.ts\<close>), together
  with \<open>isActive\<close>, which \<^verbatim>\<open>AgreementStopped\<close> clears. Amounts are \<^verbatim>\<open>BigNumber\<close>s
  holding integers (token units, megabytes), \<open>lastPayout\<close> is the block's date.
\<close>

record agreement =
  agreementReference :: string
  dataReference :: string
  consumer :: string
  offerId :: "string option"
  size :: int
  billingPeriod :: int
  billingPrice :: int
  availableFunds :: int
  expiredAtBlockNumber :: "nat option"
  lastPayout :: nat
  isActive :: bool

text \<open>
  A blockchain event as web3 delivers it: the event name, the block number and the
  decoded \<^verbatim>\<open>returnValues\<close>. The handlers cast the event to the type they expect, so
  one record carries every field; \<open>provider\<close> and \<open>agreementReference\<close> are optional
  because the relevance filter tests the first for truthiness and looks the second up
  whatever the event is.
\<close>

record returnValues =
  rv_provider :: "string option"
  rv_agreementCreator :: string
  rv_dataReference :: "string list"
  rv_size :: int
  rv_billingPeriod :: int
  rv_billingPrice :: int
  rv_token :: string
  rv_availableFunds :: int
  rv_agreementReference :: "string option"
  rv_amount :: int

record blockchain_event =
  event :: string
  blockNumber :: nat
  returnValues :: returnValues

text \<open>
  Everything a handler can touch. \<open>agreements\<close> is the Agreement table, a list of rows;
  \<open>provider\<close> is the state of the content store behind the provider manager;
  \<open>trace\<close> records, in order, the writes to the table, the requests to the manager and
  the broadcasts; \<open>log\<close> is the logger output.
\<close>

datatype effect =
    Upserted string
  | Saved string
  | PinRequested string int string
  | UnpinRequested string
  | Broadcast MessageCodesEnum string

datatype log_entry =
    CreatedNewAgreement string "string option"
  | AgreementWasStopped "string option"
  | ToppedUp "string option" int
  | WithdrawnFrom int "string option"
  | PayedOutFrom int "string option"
  | GotEventForProvider string "string option"
  | EventsNotRelatedToOffer string
  | LoggedError string error

record 'p world =
  agreements :: "agreement list"
  provider :: 'p
  trace :: "effect list"
  log :: "log_entry list"

definition emit :: "effect \<Rightarrow> 'p world \<Rightarrow> 'p world" where
  "emit e w = w\<lparr>trace := trace w @ [e]\<rparr>"

definition logger :: "log_entry \<Rightarrow> 'p world \<Rightarrow> 'p world" where
  "logger l w = w\<lparr>log := log w @ [l]\<rparr>"

text \<open>\<^verbatim>\<open>broadcast(code, { agreementReference })\<close>: fire and forget on the channel.\<close>

definition broadcast :: "MessageCodesEnum \<Rightarrow> string \<Rightarrow> 'p world \<Rightarrow> 'p world" where
  "broadcast code ref w = emit (Broadcast code ref) w"

text \<open>
  The provider manager the handlers receive in their options: \<^verbatim>\<open>pin(hash, size, ref)\<close>
  and \<^verbatim>\<open>unpin(hash)\<close> act on the content store only and may reject.
\<close>

record 'p manager =
  pin :: "string \<Rightarrow> int \<Rightarrow> string \<Rightarrow> 'p \<Rightarrow> (error + unit) \<times> 'p"
  unpin :: "string \<Rightarrow> 'p \<Rightarrow> (error + unit) \<times> 'p"

text \<open>
  \<^verbatim>\<open>options.eth\<close> is the chain client; the handlers use it only through
  \<^verbatim>\<open>getBlockDate(eth, blockNumber)\<close> (of \<^verbatim>\<open>blockchain/utils\<close>, taken as given),
  a remote call that gives the block's date or rejects.
\<close>

type_synonym eth = "nat \<Rightarrow> error + nat"

definition getBlockDate :: "eth \<Rightarrow> nat \<Rightarrow> error + nat" where
  "getBlockDate e n = e n"

record 'p options =
  manager :: "'p manager option"
  eth :: eth

text \<open>
  The two functions of \<^verbatim>\<open>web3-utils\<close> the code calls: \<^verbatim>\<open>soliditySha3(...args)\<close> and
  \<^verbatim>\<open>hexToAscii(hex)\<close>.
\<close>

record web3_utils =
  soliditySha3 :: "string list \<Rightarrow> string"
  hexToAscii :: "string \<Rightarrow> string"

section \<open>The Agreement table\<close>

text \<open>\<^verbatim>\<open>Agreement.findByPk(id)\<close>: the row whose primary key is \<open>id\<close>, or null.\<close>

fun findByPk :: "agreement list \<Rightarrow> string option \<Rightarrow> agreement option" where
  "findByPk tbl None = None"
| "findByPk tbl (Some pk) = find (\<lambda>r. agreementReference r = pk) tbl"

text \<open>\<^verbatim>\<open>agreement.save()\<close>: write the instance back to the row with its primary key.\<close>

definition save :: "agreement \<Rightarrow> agreement list \<Rightarrow> agreement list" where
  "save a tbl = map (\<lambda>r. if agreementReference r = agreementReference a then a else r) tbl"

text \<open>
  \<^verbatim>\<open>Agreement.upsert(data)\<close>: insert the row, or update the given columns of the row
  with the same primary key. The argument \<open>d\<close> is the instance built from \<open>data\<close>,
  which has no \<open>isActive\<close>: \<open>d\<close> carries the column's default there. An inserted
  row is \<open>d\<close>; an updated row takes the columns of \<open>data\<close> and keeps its own
  \<open>isActive\<close>. The first component is the instance the call returns.
\<close>

definition applyData :: "agreement \<Rightarrow> agreement \<Rightarrow> agreement" where
  "applyData d r = d\<lparr>isActive := isActive r\<rparr>"

definition upsert :: "agreement \<Rightarrow> agreement list \<Rightarrow> agreement \<times> agreement list" where
  "upsert d tbl =
     (case find (\<lambda>r. agreementReference r = agreementReference d) tbl of
        None \<Rightarrow> (d, tbl @ [d])
      | Some old \<Rightarrow>
          (d, map (\<lambda>r. if agreementReference r = agreementReference d then applyData d r else r) tbl))"

section \<open>Decoding the data reference (\<^verbatim>\<open>utils.ts\<close>)\<close>

text \<open>
  \<^verbatim>\<open>String.prototype.trim\<close> on a string of one-byte characters: the white space and
  line terminators of ECMAScript below 256.
\<close>

definition isWhiteSpace :: "char \<Rightarrow> bool" where
  "isWhiteSpace c = (of_char c \<in> {9, 10, 11, 12, 13, 32, 160 :: nat})"

definition trim :: "string \<Rightarrow> string" where
  "trim s = rev (dropWhile isWhiteSpace (rev (dropWhile isWhiteSpace s)))"

definition decodeByteArray :: "web3_utils \<Rightarrow> string list \<Rightarrow> string" where
  "decodeByteArray web3 fileReference =
     filter (\<lambda>c. c \<noteq> CHR 0x00) (trim (concat (map (hexToAscii web3) fileReference)))"

section \<open>The agreement event handlers (\<^verbatim>\<open>processor/blockchain-events/agreement.ts\<close>)\<close>

text \<open>The text JavaScript interpolates for an id that may be undefined.\<close>

definition showId :: "string option \<Rightarrow> string" where
  "showId i = (case i of None \<Rightarrow> ''undefined'' | Some s \<Rightarrow> s)"

definition notFound :: "string option \<Rightarrow> string \<Rightarrow> error" where
  "notFound i ev = EventError (''Agreement with ID '' @ showId i @ '' was not found!'') ev"

text \<open>
  Modelled from the spec: the default of the \<open>isActive\<close> column, declared by the
  model class in \<^verbatim>\<open>models/agreement.model.ts\<close>, which is missing. The spec has an
  agreement active until it is stopped or runs out of funds, so a new row is active.
\<close>

definition isActive_default :: bool where
  "isActive_default = True"

definition NewAgreement ::
  "web3_utils \<Rightarrow> blockchain_event \<Rightarrow> 'p options \<Rightarrow> 'p world \<Rightarrow> (error + unit) \<times> 'p world" where
  "NewAgreement web3 ev options w =
     (let rv = returnValues ev;
          agreementRef = soliditySha3 web3 (rv_agreementCreator rv # rv_dataReference rv @ [rv_token rv]);
          dataRef = decodeByteArray web3 (rv_dataReference rv)
      in case getBlockDate (eth options) (blockNumber ev) of
           Inl e \<Rightarrow> (Inl e, w)
         | Inr date \<Rightarrow>
             (let data = \<lparr>agreementReference = agreementRef,
                          dataReference = dataRef,
                          consumer = rv_agreementCreator rv,
                          offerId = rv_provider rv,
                          size = rv_size rv,
                          billingPeriod = rv_billingPeriod rv,
                          billingPrice = rv_billingPrice rv,
                          availableFunds = rv_availableFunds rv,
                          expiredAtBlockNumber = None,
                          lastPayout = date,
                          isActive = isActive_default\<rparr>;
                  (agreement, tbl) = upsert data (agreements w);
                  w1 = logger (CreatedNewAgreement agreementRef (rv_provider rv))
                         (emit (Upserted agreementRef) (w\<lparr>agreements := tbl\<rparr>))
              in case manager options of
                   None \<Rightarrow> (Inr (), w1)
                 | Some m \<Rightarrow>
                     (let w2 = emit (PinRequested dataRef (size agreement) (agreementReference agreement)) w1
                      in case pin m dataRef (size agreement) (agreementReference agreement) (provider w2) of
                           (Inl e, p) \<Rightarrow> (Inl e, w2\<lparr>provider := p\<rparr>)
                         | (Inr u, p) \<Rightarrow>
                             (Inr (), broadcast I_AGREEMENT_NEW agreementRef (w2\<lparr>provider := p\<rparr>)))))"

definition AgreementStopped ::
  "blockchain_event \<Rightarrow> 'p options \<Rightarrow> 'p world \<Rightarrow> (error + unit) \<times> 'p world" where
  "AgreementStopped ev options w =
     (let i = rv_agreementReference (returnValues ev)
      in case findByPk (agreements w) i of
           None \<Rightarrow> (Inl (notFound i ''AgreementStopped''), w)
         | Some found \<Rightarrow>
             (let agreement = found\<lparr>isActive := False\<rparr>;
                  w1 = emit (Saved (agreementReference agreement))
                         (w\<lparr>agreements := save agreement (agreements w)\<rparr>)
              in case manager options of
                   None \<Rightarrow> (Inr (), logger (AgreementWasStopped i) w1)
                 | Some m \<Rightarrow>
                     (let w2 = emit (UnpinRequested (dataReference agreement)) w1
                      in case unpin m (dataReference agreement) (provider w2) of
                           (Inl e, p) \<Rightarrow>
                             if \<not> hasNotPinnedCode e then (Inl e, w2\<lparr>provider := p\<rparr>)
                             else (Inr (), logger (AgreementWasStopped i)
                                     (broadcast I_AGREEMENT_STOPPED (agreementReference agreement)
                                        (w2\<lparr>provider := p\<rparr>)))
                         | (Inr u, p) \<Rightarrow>
                             (Inr (), logger (AgreementWasStopped i)
                                (broadcast I_AGREEMENT_STOPPED (agreementReference agreement)
                                   (w2\<lparr>provider := p\<rparr>))))))"

definition AgreementFundsDeposited ::
  "blockchain_event \<Rightarrow> 'p world \<Rightarrow> (error + unit) \<times> 'p world" where
  "AgreementFundsDeposited ev w =
     (let i = rv_agreementReference (returnValues ev);
          amount = rv_amount (returnValues ev)
      in case findByPk (agreements w) i of
           None \<Rightarrow> (Inl (notFound i ''AgreementFundsDeposited''), w)
         | Some found \<Rightarrow>
             (let agreement = found\<lparr>availableFunds := availableFunds found + amount\<rparr>
              in (Inr (), logger (ToppedUp i amount)
                    (emit (Saved (agreementReference agreement))
                       (w\<lparr>agreements := save agreement (agreements w)\<rparr>)))))"

definition AgreementFundsWithdrawn ::
  "blockchain_event \<Rightarrow> 'p world \<Rightarrow> (error + unit) \<times> 'p world" where
  "AgreementFundsWithdrawn ev w =
     (let i = rv_agreementReference (returnValues ev);
          amount = rv_amount (returnValues ev)
      in case findByPk (agreements w) i of
           None \<Rightarrow> (Inl (notFound i ''AgreementFundsWithdrawn''), w)
         | Some found \<Rightarrow>
             (let agreement = found\<lparr>availableFunds := availableFunds found - amount\<rparr>
              in (Inr (), logger (WithdrawnFrom amount i)
                    (emit (Saved (agreementReference agreement))
                       (w\<lparr>agreements := save agreement (agreements w)\<rparr>)))))"

text \<open>The payout handler names \<^verbatim>\<open>'AgreementFundsWithdrawn'\<close> in its not-found error.\<close>

definition AgreementFundsPayout ::
  "blockchain_event \<Rightarrow> 'p options \<Rightarrow> 'p world \<Rightarrow> (error + unit) \<times> 'p world" where
  "AgreementFundsPayout ev options w =
     (let i = rv_agreementReference (returnValues ev);
          amount = rv_amount (returnValues ev)
      in case findByPk (agreements w) i of
           None \<Rightarrow> (Inl (notFound i ''AgreementFundsWithdrawn''), w)
         | Some found \<Rightarrow>
             (case getBlockDate (eth options) (blockNumber ev) of
                Inl e \<Rightarrow> (Inl e, w)
              | Inr date \<Rightarrow>
                  (let agreement = found\<lparr>lastPayout := date,
                                          availableFunds := availableFunds found - amount\<rparr>
                   in (Inr (), logger (PayedOutFrom amount i)
                         (emit (Saved (agreementReference agreement))
                            (w\<lparr>agreements := save agreement (agreements w)\<rparr>))))))"

text \<open>
  The handlers object, keyed by event name, as \<^verbatim>\<open>buildHandler\<close> receives it: the keys
  in the order of the source.
\<close>

type_synonym 'p handler =
  "blockchain_event \<Rightarrow> 'p options \<Rightarrow> 'p world \<Rightarrow> (error + unit) \<times> 'p world"

definition handlers :: "web3_utils \<Rightarrow> (string \<times> 'p handler) list" where
  "handlers web3 =
     [(''NewAgreement'', NewAgreement web3),
      (''AgreementStopped'', AgreementStopped),
      (''AgreementFundsDeposited'', \<lambda>ev options. AgreementFundsDeposited ev),
      (''AgreementFundsWithdrawn'', \<lambda>ev options. AgreementFundsWithdrawn ev),
      (''AgreementFundsPayout'', AgreementFundsPayout)]"

section \<open>Handlers, processors and the error boundary (\<^verbatim>\<open>utils.ts\<close>)\<close>

text \<open>
  \<^verbatim>\<open>errorHandler(fn, logger)\<close>: call \<open>fn\<close> and turn a rejection into a line of the
  logger; the returned promise resolves. The logger is named by a string.
\<close>

type_synonym 'p processor = "blockchain_event \<Rightarrow> 'p world \<Rightarrow> (error + unit) \<times> 'p world"

definition errorHandler :: "'p processor \<Rightarrow> string \<Rightarrow> 'p processor" where
  "errorHandler fn lg ev w =
     (case fn ev w of
        (Inl err, w') \<Rightarrow> (Inr (), logger (LoggedError lg err) w')
      | (Inr u, w') \<Rightarrow> (Inr (), w'))"

text \<open>\<^verbatim>\<open>isEventWithProvider\<close>: \<^verbatim>\<open>Boolean(returnValues.provider)\<close>, false for undefined and ''.\<close>

definition isEventWithProvider :: "blockchain_event \<Rightarrow> bool" where
  "isEventWithProvider ev =
     (case rv_provider (returnValues ev) of None \<Rightarrow> False | Some p \<Rightarrow> p \<noteq> [])"

text \<open>
  \<^verbatim>\<open>isValidEvent(value, handlers)\<close> is \<^verbatim>\<open>value in handlers\<close>; the handlers object is an
  association list, and the names are contract event names, none of them a property
  that objects inherit.
\<close>

definition isValidEvent :: "string \<Rightarrow> (string \<times> 'h) list \<Rightarrow> bool" where
  "isValidEvent v hs = (map_of hs v \<noteq> None)"

record 'p EventsHandler =
  events :: "string list"
  process :: "blockchain_event \<Rightarrow> 'p options option \<Rightarrow> 'p world \<Rightarrow> (error + unit) \<times> 'p world"

text \<open>
  \<^verbatim>\<open>buildHandler(handlers, events)\<close>. \<^verbatim>\<open>options ?? {}\<close> is the options object with no
  manager; with no \<^verbatim>\<open>eth\<close> in it a call of \<^verbatim>\<open>getBlockDate\<close> rejects, which is what
  \<open>noOptions\<close> gives.
\<close>

definition noOptions :: "'p options" where
  "noOptions = \<lparr>manager = None, eth = (\<lambda>n. Inl (Error ''Cannot read property of undefined''))\<rparr>"

definition buildHandler :: "(string \<times> 'p handler) list \<Rightarrow> string list \<Rightarrow> 'p EventsHandler" where
  "buildHandler hs evs =
     \<lparr>events = evs,
      process = (\<lambda>ev options w.
         if \<not> isValidEvent (event ev) hs
         then (Inl (Error (''Unknown event '' @ event ev)), w)
         else (case map_of hs (event ev) of
                 None \<Rightarrow> (Inl (Error (''Unknown event '' @ event ev)), w)
               | Some h \<Rightarrow> h ev (case options of None \<Rightarrow> noOptions | Some opts \<Rightarrow> opts) w))\<rparr>"

text \<open>The default export of \<^verbatim>\<open>agreement.ts\<close>.\<close>

definition agreement_handler :: "web3_utils \<Rightarrow> 'p EventsHandler" where
  "agreement_handler web3 =
     buildHandler (handlers web3)
       [''NewAgreement'', ''AgreementFundsDeposited'', ''AgreementFundsWithdrawn'',
        ''AgreementFundsPayout'', ''AgreementStopped'']"

text \<open>
  \<^verbatim>\<open>getProcessor(handlers, options)\<close>. Every handler whose \<open>events\<close> include the event's
  name is started, in the order of the list; \<^verbatim>\<open>Promise.all\<close> waits for all of them and
  rejects with a rejection among them (here: the first in the order of the list), the
  effects of the others staying. The result is wrapped by \<open>options.errorHandler\<close>,
  or by \<open>errorHandler\<close> when there is none, with \<open>options.errorLogger\<close> or the logger
  \<^verbatim>\<open>'processor'\<close>.
\<close>

record 'p GetProcessorOptions =
  opt_errorHandler :: "('p processor \<Rightarrow> string \<Rightarrow> 'p processor) option"
  opt_errorLogger :: "string option"
  opt_processorDeps :: "'p options option"

fun promiseAll ::
  "('p world \<Rightarrow> (error + unit) \<times> 'p world) list \<Rightarrow> 'p world \<Rightarrow> (error + unit) \<times> 'p world" where
  "promiseAll [] w = (Inr (), w)"
| "promiseAll (p # ps) w =
     (case p w of
        (r, w1) \<Rightarrow>
          (case promiseAll ps w1 of
             (rs, w2) \<Rightarrow> ((case r of Inl e \<Rightarrow> Inl e | Inr u \<Rightarrow> rs), w2)))"

definition unwrapped_processor ::
  "'p EventsHandler list \<Rightarrow> 'p GetProcessorOptions option \<Rightarrow> 'p processor" where
  "unwrapped_processor hs options ev w =
     promiseAll
       (map (\<lambda>h. process h ev (case options of None \<Rightarrow> None | Some opts \<Rightarrow> opt_processorDeps opts))
          (filter (\<lambda>h. event ev \<in> set (events h)) hs)) w"

definition getProcessor ::
  "'p EventsHandler list \<Rightarrow> 'p GetProcessorOptions option \<Rightarrow> 'p processor" where
  "getProcessor hs options =
     (let errHandler = (case options of None \<Rightarrow> errorHandler
                        | Some opts \<Rightarrow> (case opt_errorHandler opts of None \<Rightarrow> errorHandler | Some h \<Rightarrow> h));
          errorLogger = (case options of None \<Rightarrow> ''processor''
                         | Some opts \<Rightarrow> (case opt_errorLogger opts of None \<Rightarrow> ''processor'' | Some l \<Rightarrow> l))
      in errHandler (unwrapped_processor hs options) errorLogger)"

section \<open>The blockchain events processor (\<^verbatim>\<open>processor/blockchain-events/index.ts\<close>)\<close>

text \<open>\<^verbatim>\<open>s.startsWith(p)\<close>.\<close>

definition startsWith :: "string \<Rightarrow> string \<Rightarrow> bool" where
  "startsWith s p = (take (length p) s = p)"

definition filterBlockchainEvents :: "string \<Rightarrow> 'p processor \<Rightarrow> 'p processor" where
  "filterBlockchainEvents offer callback ev w =
     (let w0 = logger (GotEventForProvider (event ev) (rv_provider (returnValues ev))) w
      in if isEventWithProvider ev \<and> rv_provider (returnValues ev) = Some offer
         then callback ev w0
         else if startsWith (event ev) ''Agreement''
                 \<and> findByPk (agreements w0) (rv_agreementReference (returnValues ev)) \<noteq> None
         then callback ev w0
         else (Inr (), logger (EventsNotRelatedToOffer offer) w0))"

text \<open>
  \<^verbatim>\<open>BlockchainEventsProcessor.run\<close>, as the sequence of its steps. \<open>lastFetched\<close> is
  \<^verbatim>\<open>getObject().lastFetchedBlockNumber\<close> and \<open>force\<close> is \<^verbatim>\<open>this.options?.forcePrecache\<close>,
  each \<open>None\<close> when undefined; the condition tests both for truthiness.
\<close>

datatype run_step = Initialize | Precache | OnError | OnNewEvent | OnNewBlock

definition truthyNumber :: "nat option \<Rightarrow> bool" where
  "truthyNumber n = (case n of None \<Rightarrow> False | Some k \<Rightarrow> k \<noteq> 0)"

definition truthyFlag :: "bool option \<Rightarrow> bool" where
  "truthyFlag b = (case b of None \<Rightarrow> False | Some v \<Rightarrow> v)"

definition run :: "bool \<Rightarrow> nat option \<Rightarrow> bool option \<Rightarrow> run_step list" where
  "run initialized lastFetched force =
     (if \<not> initialized then [Initialize] else [])
     @ (if \<not> truthyNumber lastFetched \<and> \<not> truthyFlag force then [Precache] else [])
     @ [OnError, OnNewEvent, OnNewBlock]"

text \<open>
  The promise \<^verbatim>\<open>precache\<close> waits for. The emitter delivers \<^verbatim>\<open>newEvent\<close> and
  \<^verbatim>\<open>initFinished\<close>; \<open>dataQueuePusher\<close> listens to the first until the second arrives,
  whose listener then passes the queue to the processor, one event after the other,
  and settles the promise. \<open>dispatched\<close> records the events given to the processor.
  What \<^verbatim>\<open>precache\<close> does once the promise has resolved, pinning every agreement
  that has funds, comes after the handoff and is not part of this machine.
\<close>

datatype signal = NewEvent blockchain_event | InitFinished

datatype promise_state = Pending | Resolved | Rejected error

record 'p precache_state =
  dataQueue :: "blockchain_event list"
  pusherAttached :: bool
  dispatched :: "blockchain_event list"
  promise :: promise_state
  pworld :: "'p world"

text \<open>\<^verbatim>\<open>for (const event of dataQueue) { await _processor(event) }\<close>, left at a rejection.\<close>

fun dispatchAll ::
  "'p processor \<Rightarrow> blockchain_event list \<Rightarrow> blockchain_event list \<Rightarrow> 'p world
     \<Rightarrow> (error + unit) \<times> blockchain_event list \<times> 'p world" where
  "dispatchAll proc [] done w = (Inr (), done, w)"
| "dispatchAll proc (e # es) done w =
     (case proc e w of
        (Inl err, w') \<Rightarrow> (Inl err, done @ [e], w')
      | (Inr u, w') \<Rightarrow> dispatchAll proc es (done @ [e]) w')"

text \<open>Settling a promise that is already settled changes nothing.\<close>

definition settle :: "promise_state \<Rightarrow> error + unit \<Rightarrow> promise_state" where
  "settle p r = (case p of Pending \<Rightarrow> (case r of Inl e \<Rightarrow> Rejected e | Inr u \<Rightarrow> Resolved)
                 | Resolved \<Rightarrow> Resolved
                 | Rejected e \<Rightarrow> Rejected e)"

definition precache_start :: "'p world \<Rightarrow> 'p precache_state" where
  "precache_start w =
     \<lparr>dataQueue = [], pusherAttached = True, dispatched = [], promise = Pending, pworld = w\<rparr>"

fun deliver :: "'p processor \<Rightarrow> 'p precache_state \<Rightarrow> signal \<Rightarrow> 'p precache_state" where
  "deliver proc st (NewEvent e) =
     (if pusherAttached st then st\<lparr>dataQueue := dataQueue st @ [e]\<rparr> else st)"
| "deliver proc st InitFinished =
     (case dispatchAll proc (dataQueue st) (dispatched st) (pworld st) of
        (r, done, w') \<Rightarrow>
          st\<lparr>pusherAttached := False, dispatched := done,
             promise := settle (promise st) r, pworld := w'\<rparr>)"

definition precache_promise :: "'p processor \<Rightarrow> signal list \<Rightarrow> 'p world \<Rightarrow> 'p precache_state" where
  "precache_promise proc sigs w = foldl (deliver proc) (precache_start w) sigs"

section \<open>The pin job (\<^verbatim>\<open>providers/ipfs.ts\<close>)\<close>

text \<open>
  The calls of the IPFS client the pin job makes, each giving its result or the error
  it throws, and \<^verbatim>\<open>bytesToMegabytes\<close> of \<^verbatim>\<open>utils\<close>, a parameter.
\<close>

record ipfs_client =
  newCID :: "string \<Rightarrow> error + string"
  object_stat :: "string \<Rightarrow> error + int"
  pin_add :: "string \<Rightarrow> error + unit"

text \<open>\<^verbatim>\<open>s.replace(pat, rep)\<close> with a string pattern: the first occurrence only.\<close>

fun replaceFirst :: "string \<Rightarrow> string \<Rightarrow> string \<Rightarrow> string" where
  "replaceFirst pat rep [] = (if pat = [] then rep else [])"
| "replaceFirst pat rep (c # cs) =
     (if take (length pat) (c # cs) = pat then rep @ drop (length pat) (c # cs)
      else c # replaceFirst pat rep cs)"

definition PinJob_run :: "(int \<Rightarrow> rat) \<Rightarrow> ipfs_client \<Rightarrow> string \<Rightarrow> int \<Rightarrow> error + unit" where
  "PinJob_run bytesToMegabytes ipfs jobHash expectedSize =
     (let hash = replaceFirst ''/ipfs/'' [] jobHash
      in case newCID ipfs hash of
           Inl e \<Rightarrow> Inl e
         | Inr cid \<Rightarrow>
             (case (case object_stat ipfs cid of
                      Inl e \<Rightarrow> Inl e
                    | Inr cumulativeSize \<Rightarrow>
                        if bytesToMegabytes cumulativeSize > of_int expectedSize
                        then Inl (HashExceedsSizeError ''The hash exceeds payed size!''
                                    cumulativeSize expectedSize)
                        else Inr ()) of
                Inl e \<Rightarrow>
                  if hasTimeoutName e
                  then Inl (Error (''Fetching size of '' @ hash @ '' timed out!''))
                  else Inl e
              | Inr u \<Rightarrow> pin_add ipfs cid))"

section \<open>Jobs and the jobs manager\<close>

text \<open>
  Modelled from the spec: \<^verbatim>\<open>src/jobs-manager.ts\<close> (the classes \<open>Job\<close> and
  \<open>JobsManager\<close>) is missing, only its unit test is there. The definitions of
  this section follow sections 3, 4.1 and 4.2 of the specification; the notification
  codes and payloads are those the unit test expects.
\<close>

text \<open>Modelled from the spec: the states of a job (section 3).\<close>

datatype JobState = CREATED | RUNNING | BACKOFF | FINISHED | ERRORED

text \<open>
  Modelled from the spec: the persisted job (section 3), with its name, its state, the
  retry as attempt/max and the error message; the timestamps are left out.
\<close>

record JobModel =
  name :: string
  state :: JobState
  retry :: "(nat \<times> nat) option"
  errorMessage :: "string option"

text \<open>
  Modelled from the spec: what a job notification carries (section 4.2): the hash;
  the hash, the attempt, the ceiling and the error text; the hash and the error text;
  the hash, the size and the expected size.
\<close>

datatype payload =
    Hash string
  | HashRetry string nat nat string
  | HashError string string
  | HashSize string int int

text \<open>
  Modelled from the spec: the job in memory (\<open>entity\<close>), its row in the Job table
  (\<open>persisted\<close>, absent until the first save), the number of calls of the body so
  far and the broadcasts.
\<close>

record jobs_world =
  entity :: JobModel
  persisted :: "JobModel option"
  invocations :: nat
  channel :: "(MessageCodesEnum \<times> payload) list"

text \<open>
  Modelled from the spec: the body of a job is given by the outcome of each of its
  calls, the first call being call 0, as the stub of the unit test is. A job has no
  \<open>pre\<close> or \<open>after\<close> hook here.
\<close>

type_synonym job_body = "nat \<Rightarrow> error + unit"

text \<open>Modelled from the spec: the error text a notification and the job row carry.\<close>

definition message :: "error \<Rightarrow> string" where
  "message e = (case e of EventError m ev \<Rightarrow> m | NotPinnedError m \<Rightarrow> m
                | HashExceedsSizeError m s x \<Rightarrow> m | TimeoutError m \<Rightarrow> m | Error m \<Rightarrow> m)"

text \<open>Modelled from the spec: a new job is CREATED, with no retry and no error (section 3).\<close>

definition newJob :: "string \<Rightarrow> jobs_world" where
  "newJob n =
     \<lparr>entity = \<lparr>name = n, state = CREATED, retry = None, errorMessage = None\<rparr>,
      persisted = None, invocations = 0, channel = []\<rparr>"

text \<open>Modelled from the spec: the job is persisted at every state transition (section 3).\<close>

definition persist :: "jobs_world \<Rightarrow> jobs_world" where
  "persist s = s\<lparr>persisted := Some (entity s)\<rparr>"

text \<open>Modelled from the spec: a broadcast on the notification channel (section 6).\<close>

definition notify :: "MessageCodesEnum \<Rightarrow> payload \<Rightarrow> jobs_world \<Rightarrow> jobs_world" where
  "notify code p s = s\<lparr>channel := channel s @ [(code, p)]\<rparr>"

text \<open>
  Modelled from the spec (section 4.1): \<open>run()\<close> moves the job to RUNNING, persists it,
  calls the body and reports the body's success or failure.
\<close>

definition Job_run :: "job_body \<Rightarrow> jobs_world \<Rightarrow> (error + unit) \<times> jobs_world" where
  "Job_run body s =
     (let s1 = persist (s\<lparr>entity := (entity s)\<lparr>state := RUNNING\<rparr>\<rparr>)
      in (body (invocations s1), s1\<lparr>invocations := invocations s1 + 1\<rparr>))"

text \<open>
  Modelled from the spec (section 4.1): \<open>retry(attempt, max)\<close> records the attempt
  count and moves the job to BACKOFF.
\<close>

definition Job_retry :: "nat \<Rightarrow> nat \<Rightarrow> jobs_world \<Rightarrow> jobs_world" where
  "Job_retry attempt maxRetries s =
     persist (s\<lparr>entity := (entity s)\<lparr>state := BACKOFF, retry := Some (attempt, maxRetries)\<rparr>\<rparr>)"

text \<open>
  Modelled from the spec (section 4.2): the size-limit error is the non-recoverable
  failure; every other error is recoverable.
\<close>

fun nonRecoverable :: "error \<Rightarrow> bool" where
  "nonRecoverable (HashExceedsSizeError m s x) = True"
| "nonRecoverable (EventError m ev) = False"
| "nonRecoverable (NotPinnedError m) = False"
| "nonRecoverable (TimeoutError m) = False"
| "nonRecoverable (Error m) = False"

text \<open>
  Modelled from the spec: the payload of a failure notification, the sizes for the
  size-limit error and the error text for any other.
\<close>

definition failurePayload :: "string \<Rightarrow> error \<Rightarrow> payload" where
  "failurePayload n e =
     (case e of HashExceedsSizeError m s x \<Rightarrow> HashSize n s x | _ \<Rightarrow> HashError n (message e))"

text \<open>
  Modelled from the spec (section 4.2): \<open>JobsManager.run(job, {retries})\<close>, from attempt
  \<open>attempt\<close> on. Each attempt broadcasts the start and runs the job. A success
  broadcasts the completion and persists FINISHED. A non-recoverable failure persists
  ERRORED, broadcasts the size-limit failure and is propagated. A recoverable failure
  with retries remaining (the attempt is below the ceiling) persists BACKOFF with
  attempt/max, broadcasts the retry warning and starts the next attempt; with none
  remaining it persists ERRORED, broadcasts the general failure and is propagated.
\<close>

function JobsManager_run_from ::
  "nat \<Rightarrow> nat \<Rightarrow> job_body \<Rightarrow> jobs_world \<Rightarrow> (error + unit) \<times> jobs_world" where
  "JobsManager_run_from retries attempt body s =
     (case Job_run body (notify I_HASH_START (Hash (name (entity s))) s) of
        (Inr u, s1) \<Rightarrow>
          (Inr (), persist ((notify I_HASH_PINNED (Hash (name (entity s1))) s1)
                              \<lparr>entity := (entity s1)\<lparr>state := FINISHED\<rparr>\<rparr>))
      | (Inl e, s1) \<Rightarrow>
          if nonRecoverable e
          then (Inl e, notify E_AGREEMENT_SIZE_LIMIT_EXCEEDED (failurePayload (name (entity s1)) e)
                         (persist (s1\<lparr>entity := (entity s1)\<lparr>state := ERRORED,
                                                              errorMessage := Some (message e)\<rparr>\<rparr>)))
          else if attempt < retries
          then JobsManager_run_from retries (attempt + 1) body
                 (notify W_HASH_RETRY (HashRetry (name (entity s1)) attempt retries (message e))
                    (Job_retry attempt retries s1))
          else (Inl e, notify E_GENERAL (failurePayload (name (entity s1)) e)
                         (persist (s1\<lparr>entity := (entity s1)\<lparr>state := ERRORED,
                                                              errorMessage := Some (message e)\<rparr>\<rparr>))))"
  by pat_completeness auto
termination
  by (relation "measure (\<lambda>(retries, attempt, body, s). retries - attempt)") auto

text \<open>Modelled from the spec: \<open>JobsManager.run\<close> starts with attempt 1.\<close>

definition JobsManager_run :: "nat \<Rightarrow> job_body \<Rightarrow> jobs_world \<Rightarrow> (error + unit) \<times> jobs_world" where
  "JobsManager_run retries body s = JobsManager_run_from retries 1 body s"

section \<open>The funds of an agreement, as the specification states them\<close>

text \<open>
  The available funds after a sequence of fund events, in the specification's words:
  the initial funds plus each deposited amount, minus each withdrawn and each paid-out
  amount, applied in the order of the sequence.
\<close>

fun fundsAfter :: "int \<Rightarrow> blockchain_event list \<Rightarrow> int" where
  "fundsAfter f [] = f"
| "fundsAfter f (ev # evs) =
     fundsAfter
       (if event ev = ''AgreementFundsDeposited'' then f + rv_amount (returnValues ev)
        else if event ev = ''AgreementFundsWithdrawn'' then f - rv_amount (returnValues ev)
        else if event ev = ''AgreementFundsPayout'' then f - rv_amount (returnValues ev)
        else f) evs"

text \<open>The last payout: the date of the block of the latest payout event, if there is one.\<close>

fun lastPayoutAfter :: "eth \<Rightarrow> nat \<Rightarrow> blockchain_event list \<Rightarrow> nat" where
  "lastPayoutAfter e t [] = t"
| "lastPayoutAfter e t (ev # evs) =
     lastPayoutAfter e
       (if event ev = ''AgreementFundsPayout''
        then (case getBlockDate e (blockNumber ev) of Inl err \<Rightarrow> t | Inr d \<Rightarrow> d)
        else t) evs"

text \<open>A fund event of the given kind for the agreement \<open>i\<close>.\<close>

definition fundsEvent :: "string \<Rightarrow> string \<Rightarrow> int \<Rightarrow> nat \<Rightarrow> blockchain_event" where
  "fundsEvent kind i amount blk =
     \<lparr>event = kind, blockNumber = blk,
      returnValues = \<lparr>rv_provider = None, rv_agreementCreator = [], rv_dataReference = [],
        rv_size = 0, rv_billingPeriod = 0, rv_billingPrice = 0, rv_token = [],
        rv_availableFunds = 0, rv_agreementReference = Some i, rv_amount = amount\<rparr>\<rparr>"

text \<open>
  A fund event for the agreement \<open>i\<close> that can be processed: a deposit, a
  withdrawal, or a payout the date of whose block can be fetched.
\<close>

definition isFundsEventFor :: "string \<Rightarrow> 'p options \<Rightarrow> blockchain_event \<Rightarrow> bool" where
  "isFundsEventFor i options ev =
     (rv_agreementReference (returnValues ev) = Some i
      \<and> (event ev = ''AgreementFundsDeposited'' \<or> event ev = ''AgreementFundsWithdrawn''
           \<or> (event ev = ''AgreementFundsPayout''
               \<and> (case getBlockDate (eth options) (blockNumber ev) of Inl e \<Rightarrow> False | Inr d \<Rightarrow> True))))"

text \<open>The amount of a fund event with its sign: deposits add, the others subtract.\<close>

definition signedAmount :: "blockchain_event \<Rightarrow> int" where
  "signedAmount ev =
     (if event ev = ''AgreementFundsDeposited'' then rv_amount (returnValues ev)
      else if event ev = ''AgreementFundsWithdrawn'' \<or> event ev = ''AgreementFundsPayout''
      then - rv_amount (returnValues ev)
      else 0)"

text \<open>
  Modelled from the spec: the state in which the manager starts the next attempt,
  after an attempt that failed with the recoverable error \<open>e\<close>.
\<close>

definition nextAttempt :: "nat \<Rightarrow> nat \<Rightarrow> error \<Rightarrow> jobs_world \<Rightarrow> jobs_world" where
  "nextAttempt retries attempt e s =
     notify W_HASH_RETRY (HashRetry (name (entity s)) attempt retries (message e))
       (Job_retry attempt retries
          (snd (Job_run (\<lambda>i. Inl e) (notify I_HASH_START (Hash (name (entity s))) s))))"

section \<open>Concrete inputs\<close>

text \<open>
  A stand-in for \<^verbatim>\<open>web3-utils\<close>, a content store that keeps the list of pinned
  hashes, a chain whose block \<open>n\<close> has the date \<open>30 n\<close>, and events, used to
  evaluate the definitions.
\<close>

definition ex_web3 :: web3_utils where
  "ex_web3 = \<lparr>soliditySha3 = concat, hexToAscii = (\<lambda>h. drop 2 h)\<rparr>"

definition ex_manager :: "string list manager" where
  "ex_manager =
     \<lparr>pin = (\<lambda>h sz ref pinned. (Inr (), h # pinned)),
      unpin = (\<lambda>h pinned. if h \<in> set pinned then (Inr (), removeAll h pinned)
                           else (Inl (NotPinnedError ''not pinned''), pinned))\<rparr>"

definition ex_options :: "string list options" where
  "ex_options = \<lparr>manager = Some ex_manager, eth = (\<lambda>n. Inr (n * 30))\<rparr>"

definition ex_world :: "string list world" where
  "ex_world = \<lparr>agreements = [], provider = [], trace = [], log = []\<rparr>"

definition ex_NewAgreement :: blockchain_event where
  "ex_NewAgreement =
     \<lparr>event = ''NewAgreement'', blockNumber = 7,
      returnValues = \<lparr>rv_provider = Some ''0xP'', rv_agreementCreator = ''0xC'',
        rv_dataReference = [''0x/ipfs/Qm'', ''0xab''], rv_size = 5, rv_billingPeriod = 10,
        rv_billingPrice = 2, rv_token = ''0xT'', rv_availableFunds = 100,
        rv_agreementReference = None, rv_amount = 0\<rparr>\<rparr>"

definition ex_agreement :: agreement where
  "ex_agreement =
     \<lparr>agreementReference = ''A1'', dataReference = ''/ipfs/Qm1'', consumer = ''0xC'',
      offerId = Some ''0xP'', size = 5, billingPeriod = 10, billingPrice = 2,
      availableFunds = 1000, expiredAtBlockNumber = None, lastPayout = 0, isActive = True\<rparr>"

definition ex_funded :: "string list world" where
  "ex_funded = \<lparr>agreements = [ex_agreement], provider = [''/ipfs/Qm1''], trace = [], log = []\<rparr>"

definition ex_funds_events :: "blockchain_event list" where
  "ex_funds_events =
     [fundsEvent ''AgreementFundsDeposited'' ''A1'' 100 1,
      fundsEvent ''AgreementFundsWithdrawn'' ''A1'' 30 2,
      fundsEvent ''AgreementFundsPayout'' ''A1'' 20 3]"

definition ex_body_retry :: job_body where
  "ex_body_retry i = (if i < 2 then Inl (Error ''testing'') else Inr ())"

definition ex_body_size :: job_body where
  "ex_body_size i =
     (if i = 0 then Inl (Error ''testing1'')
      else Inl (HashExceedsSizeError ''testing2'' 10 9))"

definition ex_Stopped :: blockchain_event where
  "ex_Stopped = fundsEvent ''AgreementStopped'' ''A1'' 0 9"

definition ex_options_no_manager :: "string list options" where
  "ex_options_no_manager = ex_options\<lparr>manager := None\<rparr>"

definition ex_collected :: "string list world" where
  "ex_collected = ex_funded\<lparr>provider := []\<rparr>"

definition ex_manager_down :: "string list manager" where
  "ex_manager_down =
     \<lparr>pin = (\<lambda>h sz ref pinned. (Inl (Error ''connect ECONNREFUSED''), pinned)),
      unpin = (\<lambda>h pinned. (Inl (Error ''connect ECONNREFUSED''), pinned))\<rparr>"

definition ex_options_down :: "string list options" where
  "ex_options_down = ex_options\<lparr>manager := Some ex_manager_down\<rparr>"

definition ex_offer_handler :: "string list EventsHandler" where
  "ex_offer_handler = buildHandler [] [''TotalCapacitySet'']"

definition ex_BillingPlanSet :: blockchain_event where
  "ex_BillingPlanSet = fundsEvent ''BillingPlanSet'' ''A1'' 0 5"

definition ex_TotalCapacitySet :: blockchain_event where
  "ex_TotalCapacitySet = fundsEvent ''TotalCapacitySet'' ''A1'' 0 4"

definition ex_stored :: "string list world" where
  "ex_stored = ex_funded\<lparr>agreements := [ex_agreement\<lparr>offerId := Some ''0xQ''\<rparr>]\<rparr>"

definition ex_foreign_NewAgreement :: blockchain_event where
  "ex_foreign_NewAgreement =
     ex_NewAgreement\<lparr>returnValues := (returnValues ex_NewAgreement)\<lparr>rv_provider := Some ''0xOther''\<rparr>\<rparr>"

definition ex_processor_options :: "string list GetProcessorOptions" where
  "ex_processor_options =
     \<lparr>opt_errorHandler = None, opt_errorLogger = Some ''processor:blockchain'',
      opt_processorDeps = Some ex_options\<rparr>"

definition ex_processor :: "string list processor" where
  "ex_processor =
     filterBlockchainEvents ''0xP'' (getProcessor [agreement_handler ex_web3] (Some ex_processor_options))"

definition ex_Deposited :: blockchain_event where
  "ex_Deposited = fundsEvent ''AgreementFundsDeposited'' ''0xC0x/ipfs/Qm0xab0xT'' 100 8"

section \<open>Properties of the Agreement table\<close>

lemma find_pk_mem:
  "find (\<lambda>r. agreementReference r = k) tbl = Some old \<Longrightarrow> old \<in> set tbl \<and> agreementReference old = k"
  by (induction tbl) (auto split: if_splits)

lemma pk_applyData [simp]: "agreementReference (applyData d r) = agreementReference d"
  by (simp add: applyData_def)

lemma map_pk_upsert_some:
  "map agreementReference (map (\<lambda>r. if agreementReference r = agreementReference d then applyData d r else r) tbl)
     = map agreementReference tbl"
  by (induction tbl) auto

lemma upsert_keys:
  "map agreementReference (snd (upsert d tbl)) =
     (if agreementReference d \<in> set (map agreementReference tbl) then map agreementReference tbl
      else map agreementReference tbl @ [agreementReference d])"
proof (cases "find (\<lambda>r. agreementReference r = agreementReference d) tbl")
  case None
  then have "agreementReference d \<notin> agreementReference ` set tbl"
    by (auto simp: find_None_iff)
  then show ?thesis using None by (simp add: upsert_def)
next
  case (Some old)
  from find_pk_mem [OF Some] have "agreementReference d \<in> agreementReference ` set tbl"
    by (metis imageI)
  then show ?thesis using Some by (simp add: upsert_def map_pk_upsert_some)
qed

lemma upsert_distinct:
  "distinct (map agreementReference tbl) \<Longrightarrow> distinct (map agreementReference (snd (upsert d tbl)))"
  by (simp add: upsert_keys)

lemma count_keys: "length (filter (\<lambda>r. agreementReference r = k) tbl) = count_list (map agreementReference tbl) k"
  by (induction tbl) auto

lemma upsert_pk_mem: "agreementReference d \<in> set (map agreementReference (snd (upsert d tbl)))"
  by (simp add: upsert_keys)

lemma distinct_count_one: "distinct xs \<Longrightarrow> x \<in> set xs \<Longrightarrow> count_list xs x = 1"
  by (induction xs) (auto simp: count_list_0_iff)

lemma upsert_count:
  "distinct (map agreementReference tbl) \<Longrightarrow>
   length (filter (\<lambda>r. agreementReference r = agreementReference d) (snd (upsert d tbl))) = 1"
  unfolding count_keys using upsert_distinct upsert_pk_mem distinct_count_one by metis

lemma applyData_idem: "applyData d (applyData d r) = applyData d r"
  by (simp add: applyData_def)

lemma upsert_idem: "snd (upsert d (snd (upsert d tbl))) = snd (upsert d tbl)"
proof (cases "find (\<lambda>r. agreementReference r = agreementReference d) tbl")
  case None
  then have a: "\<forall>r\<in>set tbl. agreementReference r \<noteq> agreementReference d"
    by (simp add: find_None_iff)
  then have m: "map (\<lambda>r. if agreementReference r = agreementReference d then applyData d r else r) tbl = tbl"
    by (induction tbl) auto
  have f: "find (\<lambda>r. agreementReference r = agreementReference d) (tbl @ [d]) = Some d"
    using a by (induction tbl) auto
  show ?thesis using None f m by (simp add: upsert_def applyData_def)
next
  case (Some old)
  let ?f = "\<lambda>r. if agreementReference r = agreementReference d then applyData d r else r"
  have "find (\<lambda>r. agreementReference r = agreementReference d) (map ?f tbl) \<noteq> None"
    using Some by (induction tbl) (auto split: if_splits)
  then obtain old' where o: "find (\<lambda>r. agreementReference r = agreementReference d) (map ?f tbl) = Some old'"
    by auto
  have "map ?f (map ?f tbl) = map ?f tbl"
    by (induction tbl) (auto simp: applyData_idem)
  then show ?thesis using Some o by (simp add: upsert_def)
qed


lemma NewAgreement_table:
  assumes "getBlockDate (eth options) (blockNumber ev) = Inr date"
  shows "agreements (snd (NewAgreement web3 ev options w)) =
     snd (upsert \<lparr>agreementReference = soliditySha3 web3 (rv_agreementCreator (returnValues ev) # rv_dataReference (returnValues ev) @ [rv_token (returnValues ev)]),
                          dataReference = decodeByteArray web3 (rv_dataReference (returnValues ev)),
                          consumer = rv_agreementCreator (returnValues ev),
                          offerId = rv_provider (returnValues ev),
                          size = rv_size (returnValues ev),
                          billingPeriod = rv_billingPeriod (returnValues ev),
                          billingPrice = rv_billingPrice (returnValues ev),
                          availableFunds = rv_availableFunds (returnValues ev),
                          expiredAtBlockNumber = None,
                          lastPayout = date,
                          isActive = isActive_default\<rparr> (agreements w))"
  using assms
  by (simp add: NewAgreement_def Let_def emit_def logger_def broadcast_def
        split: prod.splits option.splits sum.splits)

section \<open>Creation is idempotent\<close>

text \<open>
  Claim C1. Processing a \<open>NewAgreement\<close> event and then processing it again leaves
  exactly one row whose id is the \<open>soliditySha3\<close> hash of the consumer address, the
  data-reference chunks and the payment token, and the second processing leaves the
  table as the first one made it: the handler upserts. The table's primary keys are
  distinct before, and the date of the event's block can be fetched.
\<close>

theorem NewAgreement_replay_one_record:
  assumes "distinct (map agreementReference (agreements w))"
    and "getBlockDate (eth options) (blockNumber ev) = Inr date"
  shows "length (filter (\<lambda>r. agreementReference r =
                   soliditySha3 web3 (rv_agreementCreator (returnValues ev)
                     # rv_dataReference (returnValues ev) @ [rv_token (returnValues ev)]))
           (agreements (snd (NewAgreement web3 ev options
                          (snd (NewAgreement web3 ev options w)))))) = 1
       \<and> agreements (snd (NewAgreement web3 ev options (snd (NewAgreement web3 ev options w))))
           = agreements (snd (NewAgreement web3 ev options w))"
proof -
  let ?w1 = "snd (NewAgreement web3 ev options w)"
  let ?w2 = "snd (NewAgreement web3 ev options ?w1)"
  note t1 = NewAgreement_table [OF assms(2), of web3 w]
  note t2 = NewAgreement_table [OF assms(2), of web3 ?w1]
  have same: "agreements ?w2 = agreements ?w1"
    unfolding t2 unfolding t1 by (rule upsert_idem)
  have "length (filter (\<lambda>r. agreementReference r =
                   soliditySha3 web3 (rv_agreementCreator (returnValues ev)
                     # rv_dataReference (returnValues ev) @ [rv_token (returnValues ev)]))
           (agreements ?w1)) = 1"
    unfolding t1
    using upsert_count [OF assms(1), of "\<lparr>agreementReference = soliditySha3 web3 (rv_agreementCreator (returnValues ev) # rv_dataReference (returnValues ev) @ [rv_token (returnValues ev)]),
                          dataReference = decodeByteArray web3 (rv_dataReference (returnValues ev)),
                          consumer = rv_agreementCreator (returnValues ev),
                          offerId = rv_provider (returnValues ev),
                          size = rv_size (returnValues ev),
                          billingPeriod = rv_billingPeriod (returnValues ev),
                          billingPrice = rv_billingPrice (returnValues ev),
                          availableFunds = rv_availableFunds (returnValues ev),
                          expiredAtBlockNumber = None,
                          lastPayout = date,
                          isActive = isActive_default\<rparr>"]
    by simp
  with same show ?thesis by simp
qed

text \<open>The theorem at the event \<open>ex_NewAgreement\<close>, on the empty table.\<close>

theorem NewAgreement_replay_one_record_witness:
  "distinct (map agreementReference (agreements ex_world))
   \<and> getBlockDate (eth ex_options) (blockNumber ex_NewAgreement) = Inr 210
   \<and> length (filter (\<lambda>r. agreementReference r = ''0xC0x/ipfs/Qm0xab0xT'')
           (agreements (snd (NewAgreement ex_web3 ex_NewAgreement ex_options
                          (snd (NewAgreement ex_web3 ex_NewAgreement ex_options ex_world)))))) = 1
   \<and> agreements (snd (NewAgreement ex_web3 ex_NewAgreement ex_options
                          (snd (NewAgreement ex_web3 ex_NewAgreement ex_options ex_world))))
       = agreements (snd (NewAgreement ex_web3 ex_NewAgreement ex_options ex_world))"
proof -
  have d: "distinct (map agreementReference (agreements ex_world))"
    by (simp add: ex_world_def)
  have g: "getBlockDate (eth ex_options) (blockNumber ex_NewAgreement) = Inr 210"
    by (simp add: getBlockDate_def ex_options_def ex_NewAgreement_def)
  have s: "soliditySha3 ex_web3 (rv_agreementCreator (returnValues ex_NewAgreement)
                     # rv_dataReference (returnValues ex_NewAgreement) @ [rv_token (returnValues ex_NewAgreement)])
            = ''0xC0x/ipfs/Qm0xab0xT''"
    by (simp add: ex_web3_def ex_NewAgreement_def)
  note r = NewAgreement_replay_one_record [OF d g, of ex_web3, unfolded s]
  from d g r show ?thesis by blast
qed

section \<open>Fund events are applied in sequence\<close>

lemma find_save:
  assumes "find (\<lambda>r. agreementReference r = k) tbl = Some a" and "agreementReference a' = k"
  shows "find (\<lambda>r. agreementReference r = k) (save a' tbl) = Some a'"
  using assms by (induction tbl) (auto simp: save_def split: if_splits)

lemma findByPk_save:
  assumes "findByPk tbl (Some k) = Some a" and "agreementReference a' = k"
  shows "findByPk (save a' tbl) (Some k) = Some a'"
  using assms by (simp add: find_save)

lemma findByPk_pk: "findByPk tbl (Some k) = Some a \<Longrightarrow> agreementReference a = k"
  using find_pk_mem by fastforce

lemma process_Deposited:
  assumes "event ev = ''AgreementFundsDeposited''"
  shows "process (agreement_handler web3) ev opts w = AgreementFundsDeposited ev w"
  using assms by (simp add: agreement_handler_def buildHandler_def isValidEvent_def handlers_def)

lemma process_Withdrawn:
  assumes "event ev = ''AgreementFundsWithdrawn''"
  shows "process (agreement_handler web3) ev opts w = AgreementFundsWithdrawn ev w"
  using assms by (simp add: agreement_handler_def buildHandler_def isValidEvent_def handlers_def)

lemma process_Payout:
  assumes "event ev = ''AgreementFundsPayout''"
  shows "process (agreement_handler web3) ev (Some options) w = AgreementFundsPayout ev options w"
  using assms by (simp add: agreement_handler_def buildHandler_def isValidEvent_def handlers_def)

lemma process_Stopped:
  assumes "event ev = ''AgreementStopped''"
  shows "process (agreement_handler web3) ev (Some options) w = AgreementStopped ev options w"
  using assms by (simp add: agreement_handler_def buildHandler_def isValidEvent_def handlers_def)

lemma process_NewAgreement:
  assumes "event ev = ''NewAgreement''"
  shows "process (agreement_handler web3) ev (Some options) w = NewAgreement web3 ev options w"
  using assms by (simp add: agreement_handler_def buildHandler_def isValidEvent_def handlers_def)

lemma funds_step:
  assumes f: "findByPk (agreements w) (Some i) = Some a"
    and e: "isFundsEventFor i options ev"
  shows "\<exists>w' a'. process (agreement_handler web3) ev (Some options) w = (Inr (), w')
           \<and> findByPk (agreements w') (Some i) = Some a'
           \<and> availableFunds a' = fundsAfter (availableFunds a) [ev]
           \<and> lastPayout a' = lastPayoutAfter (eth options) (lastPayout a) [ev]"
proof -
  have pk: "agreementReference a = i" using f by (rule findByPk_pk)
  have r: "rv_agreementReference (returnValues ev) = Some i"
    using e by (simp add: isFundsEventFor_def)
  consider (dep) "event ev = ''AgreementFundsDeposited''"
    | (wd) "event ev = ''AgreementFundsWithdrawn''"
    | (pay) d where "event ev = ''AgreementFundsPayout''" "getBlockDate (eth options) (blockNumber ev) = Inr d"
    using e by (auto simp: isFundsEventFor_def split: sum.splits)
  then show ?thesis
  proof cases
    case dep
    have "findByPk (save (a\<lparr>availableFunds := availableFunds a + rv_amount (returnValues ev)\<rparr>) (agreements w)) (Some i)
            = Some (a\<lparr>availableFunds := availableFunds a + rv_amount (returnValues ev)\<rparr>)"
      using f pk by (intro findByPk_save) simp_all
    then show ?thesis
      using dep f r unfolding process_Deposited [OF dep]
      by (simp add: AgreementFundsDeposited_def Let_def logger_def emit_def)
  next
    case wd
    have "findByPk (save (a\<lparr>availableFunds := availableFunds a - rv_amount (returnValues ev)\<rparr>) (agreements w)) (Some i)
            = Some (a\<lparr>availableFunds := availableFunds a - rv_amount (returnValues ev)\<rparr>)"
      using f pk by (intro findByPk_save) simp_all
    then show ?thesis
      using wd f r unfolding process_Withdrawn [OF wd]
      by (simp add: AgreementFundsWithdrawn_def Let_def logger_def emit_def)
  next
    case pay
    have "findByPk (save (a\<lparr>lastPayout := d, availableFunds := availableFunds a - rv_amount (returnValues ev)\<rparr>) (agreements w)) (Some i)
            = Some (a\<lparr>lastPayout := d, availableFunds := availableFunds a - rv_amount (returnValues ev)\<rparr>)"
      using f pk by (intro findByPk_save) simp_all
    then show ?thesis
      using pay f r unfolding process_Payout [OF pay(1)]
      by (simp add: AgreementFundsPayout_def Let_def logger_def emit_def)
  qed
qed

lemma fundsAfter_append: "fundsAfter f (xs @ ys) = fundsAfter (fundsAfter f xs) ys"
  by (induction xs arbitrary: f) auto

lemma funds_sequence:
  assumes "findByPk (agreements w) (Some i) = Some a"
    and "list_all (isFundsEventFor i options) evs"
  shows "\<exists>w' a'. dispatchAll (\<lambda>ev. process (agreement_handler web3) ev (Some options)) evs done w
             = (Inr (), done @ evs, w')
           \<and> findByPk (agreements w') (Some i) = Some a'
           \<and> availableFunds a' = fundsAfter (availableFunds a) evs
           \<and> lastPayout a' = lastPayoutAfter (eth options) (lastPayout a) evs"
  using assms
proof (induction evs arbitrary: w a "done")
  case Nil
  then show ?case by simp
next
  case (Cons ev evs)
  from Cons.prems have e: "isFundsEventFor i options ev" and es: "list_all (isFundsEventFor i options) evs"
    by simp_all
  from funds_step [OF Cons.prems(1) e, of web3]
  obtain w1 a1 where s: "process (agreement_handler web3) ev (Some options) w = (Inr (), w1)"
    and f1: "findByPk (agreements w1) (Some i) = Some a1"
    and a1: "availableFunds a1 = fundsAfter (availableFunds a) [ev]"
    and l1: "lastPayout a1 = lastPayoutAfter (eth options) (lastPayout a) [ev]"
    by blast
  from Cons.IH [OF f1 es, of "done @ [ev]"]
  obtain w' a' where d: "dispatchAll (\<lambda>ev. process (agreement_handler web3) ev (Some options)) evs (done @ [ev]) w1
             = (Inr (), (done @ [ev]) @ evs, w')"
    and f': "findByPk (agreements w') (Some i) = Some a'"
    and a': "availableFunds a' = fundsAfter (availableFunds a1) evs"
    and l': "lastPayout a' = lastPayoutAfter (eth options) (lastPayout a1) evs"
    by blast
  have "dispatchAll (\<lambda>ev. process (agreement_handler web3) ev (Some options)) (ev # evs) done w
          = (Inr (), done @ ev # evs, w')"
    using s d by simp
  moreover have "availableFunds a' = fundsAfter (availableFunds a) (ev # evs)"
    using a' a1 by simp
  moreover have "lastPayout a' = lastPayoutAfter (eth options) (lastPayout a) (ev # evs)"
    using l' l1 by simp
  ultimately show ?case using f' by blast
qed

lemma fundsAfter_sum: "fundsAfter f evs = f + sum_list (map signedAmount evs)"
  by (induction evs arbitrary: f) (auto simp: signedAmount_def)

text \<open>
  Claim C2. For an agreement in the table and a sequence of deposit, withdrawal and
  payout events for it, processed one after the other in the order of the sequence by
  the agreement handler, every event is processed, and the agreement's available
  funds are then the initial funds plus each deposited amount and minus each withdrawn
  and paid-out amount, applied in that order; the last payout is the date of the block
  of the latest payout. Deposit 100, withdrawal 30 and payout 20, in that order, give
  the initial funds plus 50.
\<close>

theorem funds_applied_in_sequence:
  assumes "findByPk (agreements w) (Some i) = Some a"
    and "list_all (isFundsEventFor i options) evs"
  shows "fst (dispatchAll (\<lambda>ev. process (agreement_handler web3) ev (Some options)) evs [] w) = Inr ()
       \<and> fst (snd (dispatchAll (\<lambda>ev. process (agreement_handler web3) ev (Some options)) evs [] w)) = evs
       \<and> map_option availableFunds
           (findByPk (agreements (snd (snd (dispatchAll
              (\<lambda>ev. process (agreement_handler web3) ev (Some options)) evs [] w)))) (Some i))
           = Some (fundsAfter (availableFunds a) evs)
       \<and> map_option lastPayout
           (findByPk (agreements (snd (snd (dispatchAll
              (\<lambda>ev. process (agreement_handler web3) ev (Some options)) evs [] w)))) (Some i))
           = Some (lastPayoutAfter (eth options) (lastPayout a) evs)
       \<and> fundsAfter (availableFunds a) evs = availableFunds a + sum_list (map signedAmount evs)
       \<and> fundsAfter (availableFunds a)
            [fundsEvent ''AgreementFundsDeposited'' i 100 b1,
             fundsEvent ''AgreementFundsWithdrawn'' i 30 b2,
             fundsEvent ''AgreementFundsPayout'' i 20 b3] = availableFunds a + 50"
proof -
  from funds_sequence [OF assms, of web3 "[]"]
  obtain w' a' where "dispatchAll (\<lambda>ev. process (agreement_handler web3) ev (Some options)) evs [] w
             = (Inr (), evs, w')"
    and "findByPk (agreements w') (Some i) = Some a'"
    and "availableFunds a' = fundsAfter (availableFunds a) evs"
    and "lastPayout a' = lastPayoutAfter (eth options) (lastPayout a) evs"
    by auto
  moreover have "fundsAfter (availableFunds a)
            [fundsEvent ''AgreementFundsDeposited'' i 100 b1,
             fundsEvent ''AgreementFundsWithdrawn'' i 30 b2,
             fundsEvent ''AgreementFundsPayout'' i 20 b3] = availableFunds a + 50"
    by (simp add: fundsEvent_def)
  ultimately show ?thesis by (simp add: fundsAfter_sum)
qed

text \<open>The theorem at an agreement with 1000 of funds and the three events above.\<close>

theorem funds_applied_in_sequence_witness:
  "findByPk (agreements ex_funded) (Some ''A1'') = Some ex_agreement
   \<and> list_all (isFundsEventFor ''A1'' ex_options) ex_funds_events
   \<and> fst (dispatchAll (\<lambda>ev. process (agreement_handler ex_web3) ev (Some ex_options))
            ex_funds_events [] ex_funded) = Inr ()
   \<and> map_option availableFunds
        (findByPk (agreements (snd (snd (dispatchAll
           (\<lambda>ev. process (agreement_handler ex_web3) ev (Some ex_options)) ex_funds_events [] ex_funded))))
           (Some ''A1'')) = Some 1050
   \<and> map_option lastPayout
        (findByPk (agreements (snd (snd (dispatchAll
           (\<lambda>ev. process (agreement_handler ex_web3) ev (Some ex_options)) ex_funds_events [] ex_funded))))
           (Some ''A1'')) = Some 90"
proof -
  have f: "findByPk (agreements ex_funded) (Some ''A1'') = Some ex_agreement"
    by (simp add: ex_funded_def ex_agreement_def)
  have e: "list_all (isFundsEventFor ''A1'' ex_options) ex_funds_events"
    by (simp add: ex_funds_events_def isFundsEventFor_def fundsEvent_def ex_options_def
          getBlockDate_def)
  have v: "fundsAfter (availableFunds ex_agreement) ex_funds_events = 1050"
    by (simp add: ex_funds_events_def fundsEvent_def ex_agreement_def)
  have l: "lastPayoutAfter (eth ex_options) (lastPayout ex_agreement) ex_funds_events = 90"
    by (simp add: ex_funds_events_def fundsEvent_def ex_agreement_def ex_options_def
          getBlockDate_def)
  from funds_applied_in_sequence [OF f e, of ex_web3] f e show ?thesis
    unfolding v l by blast
qed

section \<open>The jobs manager\<close>

declare JobsManager_run_from.simps [simp del]

lemma invocations_nextAttempt [simp]:
  "invocations (nextAttempt retries attempt e s) = invocations s + 1"
  by (simp add: nextAttempt_def notify_def Job_retry_def Job_run_def persist_def Let_def)

lemma name_nextAttempt [simp]:
  "name (entity (nextAttempt retries attempt e s)) = name (entity s)"
  by (simp add: nextAttempt_def notify_def Job_retry_def Job_run_def persist_def Let_def)

lemma run_from_retry:
  assumes "body (invocations s) = Inl e" and "\<not> nonRecoverable e" and "attempt < retries"
  shows "JobsManager_run_from retries attempt body s =
           JobsManager_run_from retries (attempt + 1) body (nextAttempt retries attempt e s)"
  using assms
  by (subst JobsManager_run_from.simps)
     (simp add: nextAttempt_def notify_def Job_retry_def Job_run_def persist_def Let_def)

lemma run_from_success:
  assumes "body (invocations s) = Inr ()"
  shows "fst (JobsManager_run_from retries attempt body s) = Inr ()
       \<and> state (entity (snd (JobsManager_run_from retries attempt body s))) = FINISHED
       \<and> map_option state (persisted (snd (JobsManager_run_from retries attempt body s))) = Some FINISHED
       \<and> invocations (snd (JobsManager_run_from retries attempt body s)) = invocations s + 1
       \<and> channel (snd (JobsManager_run_from retries attempt body s))
           = channel s @ [(I_HASH_START, Hash (name (entity s))), (I_HASH_PINNED, Hash (name (entity s)))]"
  using assms
  by (subst (1 2 3 4 5) JobsManager_run_from.simps)
     (simp add: notify_def Job_run_def persist_def Let_def)

lemma run_from_nonRecoverable:
  assumes "body (invocations s) = Inl e" and "nonRecoverable e"
  shows "fst (JobsManager_run_from retries attempt body s) = Inl e
       \<and> state (entity (snd (JobsManager_run_from retries attempt body s))) = ERRORED
       \<and> map_option state (persisted (snd (JobsManager_run_from retries attempt body s))) = Some ERRORED
       \<and> invocations (snd (JobsManager_run_from retries attempt body s)) = invocations s + 1
       \<and> channel (snd (JobsManager_run_from retries attempt body s))
           = channel s @ [(I_HASH_START, Hash (name (entity s))),
                          (E_AGREEMENT_SIZE_LIMIT_EXCEEDED, failurePayload (name (entity s)) e)]"
  using assms
  by (subst (1 2 3 4 5) JobsManager_run_from.simps)
     (simp add: notify_def Job_run_def persist_def Let_def)

lemma run_from_nonRecoverable_after:
  assumes "body (invocations s + k) = Inl e" and "nonRecoverable e"
    and "\<forall>i<k. \<exists>e'. body (invocations s + i) = Inl e' \<and> \<not> nonRecoverable e'"
    and "attempt + k \<le> retries"
  shows "fst (JobsManager_run_from retries attempt body s) = Inl e
       \<and> state (entity (snd (JobsManager_run_from retries attempt body s))) = ERRORED
       \<and> map_option state (persisted (snd (JobsManager_run_from retries attempt body s))) = Some ERRORED
       \<and> invocations (snd (JobsManager_run_from retries attempt body s)) = invocations s + k + 1
       \<and> last (channel (snd (JobsManager_run_from retries attempt body s)))
           = (E_AGREEMENT_SIZE_LIMIT_EXCEEDED, failurePayload (name (entity s)) e)"
  using assms
proof (induction k arbitrary: attempt s)
  case 0
  from run_from_nonRecoverable [of body s e retries attempt] 0 show ?case by simp
next
  case (Suc k)
  from Suc.prems(3) obtain e' where e': "body (invocations s) = Inl e'" "\<not> nonRecoverable e'"
    by force
  have lt: "attempt < retries" using Suc.prems(4) by simp
  let ?s = "nextAttempt retries attempt e' s"
  have b: "body (invocations ?s + k) = Inl e" using Suc.prems(1) by simp
  have r: "\<forall>i<k. \<exists>e'. body (invocations ?s + i) = Inl e' \<and> \<not> nonRecoverable e'"
  proof (intro allI impI)
    fix i assume "i < k"
    then have "Suc i < Suc k" by simp
    with Suc.prems(3) have "\<exists>e'. body (invocations s + Suc i) = Inl e' \<and> \<not> nonRecoverable e'"
      by blast
    then show "\<exists>e'. body (invocations ?s + i) = Inl e' \<and> \<not> nonRecoverable e'" by simp
  qed
  have a: "attempt + 1 + k \<le> retries" using Suc.prems(4) by simp
  have step: "JobsManager_run_from retries attempt body s =
           JobsManager_run_from retries (attempt + 1) body ?s"
    using e' lt by (rule run_from_retry)
  from Suc.IH [OF b Suc.prems(2) r a] show ?case
    unfolding step by simp
qed

section \<open>The pin job\<close>

lemma PinJob_run_exceeds:
  assumes "newCID ipfs (replaceFirst ''/ipfs/'' [] h) = Inr cid"
    and "object_stat ipfs cid = Inr cumulativeSize"
    and "bytesToMegabytes cumulativeSize > of_int expectedSize"
  shows "PinJob_run bytesToMegabytes ipfs h expectedSize
           = Inl (HashExceedsSizeError ''The hash exceeds payed size!'' cumulativeSize expectedSize)"
  using assms by (simp add: PinJob_run_def Let_def)

section \<open>Retries\<close>

text \<open>
  Claim C3. A job whose body fails on its first two calls and succeeds on the third,
  run by a manager with 3 retries: the run resolves, the job and its persisted row are
  FINISHED, and the body has been called exactly 3 times. The two failures are ones
  after which the manager calls the body again, that is recoverable ones: a
  size-limit failure ends the run at once (claim C4).
\<close>

theorem retry_twice_then_finished:
  assumes "body 0 = Inl e0" and "\<not> nonRecoverable e0"
    and "body 1 = Inl e1" and "\<not> nonRecoverable e1"
    and "body 2 = Inr ()"
  shows "fst (JobsManager_run 3 body (newJob n)) = Inr ()
       \<and> state (entity (snd (JobsManager_run 3 body (newJob n)))) = FINISHED
       \<and> map_option state (persisted (snd (JobsManager_run 3 body (newJob n)))) = Some FINISHED
       \<and> map_option retry (persisted (snd (JobsManager_run 3 body (newJob n)))) = Some (Some (2, 3))
       \<and> invocations (snd (JobsManager_run 3 body (newJob n))) = 3"
proof -
  let ?s0 = "newJob n"
  let ?s1 = "nextAttempt 3 1 e0 ?s0"
  let ?s2 = "nextAttempt 3 2 e1 ?s1"
  have i0: "invocations ?s0 = 0" by (simp add: newJob_def)
  have r1: "JobsManager_run_from 3 1 body ?s0 = JobsManager_run_from 3 2 body ?s1"
    using run_from_retry [of body ?s0 e0 1 3] assms(1,2) by (simp add: i0 numeral_2_eq_2)
  have r2: "JobsManager_run_from 3 2 body ?s1 = JobsManager_run_from 3 3 body ?s2"
    using run_from_retry [of body ?s1 e1 2 3] assms(3,4) by (simp add: i0)
  have b: "body (invocations ?s2) = Inr ()"
    using assms(5) by (simp add: i0 numeral_2_eq_2)
  have e: "JobsManager_run 3 body ?s0 = JobsManager_run_from 3 3 body ?s2"
    unfolding JobsManager_run_def by (simp only: r1 r2)
  have rt: "map_option retry (persisted (snd (JobsManager_run_from 3 3 body ?s2))) = Some (Some (2, 3))"
    using b
    by (subst JobsManager_run_from.simps)
       (simp add: nextAttempt_def notify_def Job_retry_def Job_run_def persist_def Let_def)
  from run_from_success [of body ?s2 3 3] b rt show ?thesis
    unfolding e by (simp add: i0)
qed

text \<open>The theorem at the stub of the unit test: two plain errors, then success.\<close>

theorem retry_twice_then_finished_witness:
  "ex_body_retry 0 = Inl (Error ''testing'') \<and> \<not> nonRecoverable (Error ''testing'')
   \<and> ex_body_retry 1 = Inl (Error ''testing'') \<and> ex_body_retry 2 = Inr ()
   \<and> fst (JobsManager_run 3 ex_body_retry (newJob ''job'')) = Inr ()
   \<and> map_option state (persisted (snd (JobsManager_run 3 ex_body_retry (newJob ''job'')))) = Some FINISHED
   \<and> invocations (snd (JobsManager_run 3 ex_body_retry (newJob ''job''))) = 3"
proof -
  have a: "ex_body_retry 0 = Inl (Error ''testing'')" "ex_body_retry 1 = Inl (Error ''testing'')"
    "ex_body_retry 2 = Inr ()" "\<not> nonRecoverable (Error ''testing'')"
    by (simp_all add: ex_body_retry_def)
  from retry_twice_then_finished [OF a(1) a(4) a(2) a(4) a(3), of "''job''"] a
  show ?thesis by blast
qed

text \<open>
  Claim C4. The pin job raises the size-limit error when the cumulative size of the
  fetched content, in megabytes, exceeds the expected size. When the body of a job
  raises the size-limit error, after any number of recoverable failures and within the
  retry ceiling, the manager makes no further attempt whatever the ceiling is: the run
  rejects with that error, the job and its persisted row are ERRORED, the last
  broadcast is the size-limit notification, and the body has been called once more
  than it had failed before. After one recoverable failure that makes exactly 2 calls.
\<close>

theorem size_limit_ends_the_run:
  assumes "body k = Inl (HashExceedsSizeError m sz ex)"
    and "\<forall>i<k. \<exists>e'. body i = Inl e' \<and> \<not> nonRecoverable e'"
    and "k < retries"
  shows "fst (JobsManager_run retries body (newJob n)) = Inl (HashExceedsSizeError m sz ex)
       \<and> state (entity (snd (JobsManager_run retries body (newJob n)))) = ERRORED
       \<and> map_option state (persisted (snd (JobsManager_run retries body (newJob n)))) = Some ERRORED
       \<and> invocations (snd (JobsManager_run retries body (newJob n))) = k + 1
       \<and> last (channel (snd (JobsManager_run retries body (newJob n))))
           = (E_AGREEMENT_SIZE_LIMIT_EXCEEDED, HashSize n sz ex)
       \<and> (newCID ipfs (replaceFirst ''/ipfs/'' [] h) = Inr cid
            \<and> object_stat ipfs cid = Inr cumulativeSize
            \<and> bytesToMegabytes cumulativeSize > of_int expectedSize
          \<longrightarrow> PinJob_run bytesToMegabytes ipfs h expectedSize
                = Inl (HashExceedsSizeError ''The hash exceeds payed size!'' cumulativeSize expectedSize))"
proof -
  have i0: "invocations (newJob n) = 0" and n0: "name (entity (newJob n)) = n"
    by (simp_all add: newJob_def)
  have "body (invocations (newJob n) + k) = Inl (HashExceedsSizeError m sz ex)"
    using assms(1) by (simp add: i0)
  moreover have "nonRecoverable (HashExceedsSizeError m sz ex)" by simp
  moreover have "\<forall>i<k. \<exists>e'. body (invocations (newJob n) + i) = Inl e' \<and> \<not> nonRecoverable e'"
    using assms(2) by (simp add: i0)
  moreover have "1 + k \<le> retries" using assms(3) by simp
  ultimately have "fst (JobsManager_run_from retries 1 body (newJob n)) = Inl (HashExceedsSizeError m sz ex)
       \<and> state (entity (snd (JobsManager_run_from retries 1 body (newJob n)))) = ERRORED
       \<and> map_option state (persisted (snd (JobsManager_run_from retries 1 body (newJob n)))) = Some ERRORED
       \<and> invocations (snd (JobsManager_run_from retries 1 body (newJob n))) = invocations (newJob n) + k + 1
       \<and> last (channel (snd (JobsManager_run_from retries 1 body (newJob n))))
           = (E_AGREEMENT_SIZE_LIMIT_EXCEEDED, failurePayload (name (entity (newJob n))) (HashExceedsSizeError m sz ex))"
    by (rule run_from_nonRecoverable_after)
  then show ?thesis
    using PinJob_run_exceeds
    by (simp add: JobsManager_run_def i0 n0 failurePayload_def)
qed

text \<open>The theorem at the stub of the unit test: a plain error, then the size-limit error.\<close>

theorem size_limit_ends_the_run_witness:
  "ex_body_size 1 = Inl (HashExceedsSizeError ''testing2'' 10 9)
   \<and> ex_body_size 0 = Inl (Error ''testing1'') \<and> \<not> nonRecoverable (Error ''testing1'')
   \<and> fst (JobsManager_run 3 ex_body_size (newJob ''job'')) = Inl (HashExceedsSizeError ''testing2'' 10 9)
   \<and> map_option state (persisted (snd (JobsManager_run 3 ex_body_size (newJob ''job'')))) = Some ERRORED
   \<and> invocations (snd (JobsManager_run 3 ex_body_size (newJob ''job''))) = 2
   \<and> last (channel (snd (JobsManager_run 3 ex_body_size (newJob ''job''))))
           = (E_AGREEMENT_SIZE_LIMIT_EXCEEDED, HashSize ''job'' 10 9)"
proof -
  have a: "ex_body_size 1 = Inl (HashExceedsSizeError ''testing2'' 10 9)"
    by (simp add: ex_body_size_def)
  have b: "\<forall>i<1. \<exists>e'. ex_body_size i = Inl e' \<and> \<not> nonRecoverable e'"
    by (simp add: ex_body_size_def)
  have c: "(1::nat) < 3" by simp
  have d: "ex_body_size 0 = Inl (Error ''testing1'')"
    by (simp add: ex_body_size_def)
  from size_limit_ends_the_run [OF a b c, of "''job''"] a d show ?thesis
    by simp
qed

section \<open>Stopping an agreement\<close>

lemma findByPk_Some_id: "findByPk tbl i = Some a \<Longrightarrow> i = Some (agreementReference a)"
  by (cases i) (auto dest: find_pk_mem)

lemma findByPk_save_same:
  assumes "findByPk tbl i = Some a" and "agreementReference a' = agreementReference a"
  shows "findByPk (save a' tbl) i = Some a'"
proof -
  from assms(1) have i: "i = Some (agreementReference a)" by (rule findByPk_Some_id)
  from assms show ?thesis unfolding i by (intro findByPk_save) simp_all
qed

lemma AgreementStopped_found:
  assumes "findByPk (agreements w) (rv_agreementReference (returnValues ev)) = Some a"
    and "manager options = Some m"
    and "unpin m (dataReference a) (provider w) = (r, p)"
  shows "AgreementStopped ev options w =
     (if (case r of Inl e \<Rightarrow> \<not> hasNotPinnedCode e | Inr u \<Rightarrow> False)
      then (r, \<lparr>agreements = save (a\<lparr>isActive := False\<rparr>) (agreements w), provider = p,
                trace = trace w @ [Saved (agreementReference a), UnpinRequested (dataReference a)],
                log = log w\<rparr>)
      else (Inr (), \<lparr>agreements = save (a\<lparr>isActive := False\<rparr>) (agreements w), provider = p,
                trace = trace w @ [Saved (agreementReference a), UnpinRequested (dataReference a),
                                   Broadcast I_AGREEMENT_STOPPED (agreementReference a)],
                log = log w @ [AgreementWasStopped (rv_agreementReference (returnValues ev))]\<rparr>))"
  using assms
  by (cases r)
     (simp_all add: AgreementStopped_def Let_def emit_def logger_def broadcast_def)

lemma AgreementStopped_no_manager:
  assumes "findByPk (agreements w) (rv_agreementReference (returnValues ev)) = Some a"
    and "manager options = None"
  shows "AgreementStopped ev options w =
     (Inr (), \<lparr>agreements = save (a\<lparr>isActive := False\<rparr>) (agreements w), provider = provider w,
                trace = trace w @ [Saved (agreementReference a)],
                log = log w @ [AgreementWasStopped (rv_agreementReference (returnValues ev))]\<rparr>)"
  using assms
  by (simp add: AgreementStopped_def Let_def emit_def logger_def broadcast_def)

lemma AgreementStopped_not_found:
  assumes "findByPk (agreements w) (rv_agreementReference (returnValues ev)) = None"
  shows "AgreementStopped ev options w =
     (Inl (notFound (rv_agreementReference (returnValues ev)) ''AgreementStopped''), w)"
  using assms by (simp add: AgreementStopped_def Let_def)

text \<open>
  Claim C5, as stated, fails when the handler's options carry no provider manager: the
  agreement \<open>A1\<close> is in the table, the handler resolves and deactivates it, and the
  trace holds the save only, with no unpin request and no broadcast.
\<close>

theorem stop_without_manager_counterexample:
  "findByPk (agreements ex_funded) (rv_agreementReference (returnValues ex_Stopped)) = Some ex_agreement
   \<and> fst (AgreementStopped ex_Stopped ex_options_no_manager ex_funded) = Inr ()
   \<and> map isActive (agreements (snd (AgreementStopped ex_Stopped ex_options_no_manager ex_funded))) = [False]
   \<and> trace (snd (AgreementStopped ex_Stopped ex_options_no_manager ex_funded)) = [Saved ''A1'']"
proof -
  have f: "findByPk (agreements ex_funded) (rv_agreementReference (returnValues ex_Stopped)) = Some ex_agreement"
    by (simp add: ex_funded_def ex_Stopped_def fundsEvent_def ex_agreement_def)
  have m: "manager ex_options_no_manager = None"
    by (simp add: ex_options_no_manager_def)
  show ?thesis
    unfolding AgreementStopped_no_manager [OF f m]
    by (simp add: f) (simp add: ex_funded_def save_def ex_agreement_def)
qed

text \<open>
  Claim C5, amended. Processing an \<open>AgreementStopped\<close> event fails with the not-found
  error, changing nothing, when no agreement has the event's id. For an existing
  agreement it sets \<open>isActive\<close> to false and saves it; when the options carry a
  provider manager it then issues exactly one unpin request, for the agreement's data
  reference, re-raises an unpin error that is not a not-pinned error, and otherwise
  (the unpin succeeded or was answered not-pinned) resolves and broadcasts the
  agreement-stopped notification; when the options carry no manager it resolves after
  the save, with no unpin request and no broadcast.
\<close>

theorem stop_semantics:
  "(findByPk (agreements w) (rv_agreementReference (returnValues ev)) = None \<longrightarrow>
      AgreementStopped ev options w
        = (Inl (notFound (rv_agreementReference (returnValues ev)) ''AgreementStopped''), w))
   \<and> (findByPk (agreements w) (rv_agreementReference (returnValues ev)) = Some a \<longrightarrow>
        agreements (snd (AgreementStopped ev options w)) = save (a\<lparr>isActive := False\<rparr>) (agreements w)
        \<and> findByPk (agreements (snd (AgreementStopped ev options w)))
             (rv_agreementReference (returnValues ev)) = Some (a\<lparr>isActive := False\<rparr>)
        \<and> (manager options = None \<longrightarrow>
              fst (AgreementStopped ev options w) = Inr ()
              \<and> trace (snd (AgreementStopped ev options w)) = trace w @ [Saved (agreementReference a)])
        \<and> (manager options = Some m \<and> unpin m (dataReference a) (provider w) = (r, p) \<longrightarrow>
              fst (AgreementStopped ev options w)
                = (case r of Inl e \<Rightarrow> if hasNotPinnedCode e then Inr () else Inl e | Inr u \<Rightarrow> Inr ())
              \<and> trace (snd (AgreementStopped ev options w))
                  = trace w @ [Saved (agreementReference a), UnpinRequested (dataReference a)]
                      @ (case r of
                           Inl e \<Rightarrow> if hasNotPinnedCode e
                                    then [Broadcast I_AGREEMENT_STOPPED (agreementReference a)] else []
                         | Inr u \<Rightarrow> [Broadcast I_AGREEMENT_STOPPED (agreementReference a)])
              \<and> provider (snd (AgreementStopped ev options w)) = p))"
proof (intro conjI impI)
  assume "findByPk (agreements w) (rv_agreementReference (returnValues ev)) = None"
  then show "AgreementStopped ev options w
        = (Inl (notFound (rv_agreementReference (returnValues ev)) ''AgreementStopped''), w)"
    by (rule AgreementStopped_not_found)
next
  assume f: "findByPk (agreements w) (rv_agreementReference (returnValues ev)) = Some a"
  show t: "agreements (snd (AgreementStopped ev options w)) = save (a\<lparr>isActive := False\<rparr>) (agreements w)"
  proof (cases "manager options")
    case None
    then show ?thesis by (simp add: AgreementStopped_no_manager [OF f])
  next
    case (Some m')
    obtain r' p' where u: "unpin m' (dataReference a) (provider w) = (r', p')" by force
    show ?thesis by (simp add: AgreementStopped_found [OF f Some u])
  qed
  show "findByPk (agreements (snd (AgreementStopped ev options w)))
             (rv_agreementReference (returnValues ev)) = Some (a\<lparr>isActive := False\<rparr>)"
    unfolding t using f by (intro findByPk_save_same) simp_all
next
  assume f: "findByPk (agreements w) (rv_agreementReference (returnValues ev)) = Some a"
    and m: "manager options = None"
  show "fst (AgreementStopped ev options w) = Inr ()"
    by (simp add: AgreementStopped_no_manager [OF f m])
  show "trace (snd (AgreementStopped ev options w)) = trace w @ [Saved (agreementReference a)]"
    by (simp add: AgreementStopped_no_manager [OF f m])
next
  assume f: "findByPk (agreements w) (rv_agreementReference (returnValues ev)) = Some a"
    and mu: "manager options = Some m \<and> unpin m (dataReference a) (provider w) = (r, p)"
  then have m: "manager options = Some m" and u: "unpin m (dataReference a) (provider w) = (r, p)"
    by simp_all
  show "fst (AgreementStopped ev options w)
                = (case r of Inl e \<Rightarrow> if hasNotPinnedCode e then Inr () else Inl e | Inr u \<Rightarrow> Inr ())"
    by (simp add: AgreementStopped_found [OF f m u] split: sum.splits)
  show "trace (snd (AgreementStopped ev options w))
                  = trace w @ [Saved (agreementReference a), UnpinRequested (dataReference a)]
                      @ (case r of
                           Inl e \<Rightarrow> if hasNotPinnedCode e
                                    then [Broadcast I_AGREEMENT_STOPPED (agreementReference a)] else []
                         | Inr u \<Rightarrow> [Broadcast I_AGREEMENT_STOPPED (agreementReference a)])"
    by (simp add: AgreementStopped_found [OF f m u] split: sum.splits)
  show "provider (snd (AgreementStopped ev options w)) = p"
    by (simp add: AgreementStopped_found [OF f m u] split: sum.splits)
qed

text \<open>
  The theorem at three inputs: the empty table (not found); the agreement \<open>A1\<close>
  whose content the store no longer holds, so that the unpin is answered not-pinned
  and swallowed; and \<open>A1\<close> with options that carry no manager.
\<close>

theorem stop_semantics_witness:
  "findByPk (agreements ex_world) (rv_agreementReference (returnValues ex_Stopped)) = None
   \<and> AgreementStopped ex_Stopped ex_options ex_world
        = (Inl (EventError ''Agreement with ID A1 was not found!'' ''AgreementStopped''), ex_world)
   \<and> findByPk (agreements ex_collected) (rv_agreementReference (returnValues ex_Stopped)) = Some ex_agreement
   \<and> manager ex_options = Some ex_manager
   \<and> unpin ex_manager (dataReference ex_agreement) (provider ex_collected)
        = (Inl (NotPinnedError ''not pinned''), [])
   \<and> fst (AgreementStopped ex_Stopped ex_options ex_collected) = Inr ()
   \<and> trace (snd (AgreementStopped ex_Stopped ex_options ex_collected))
        = [Saved ''A1'', UnpinRequested ''/ipfs/Qm1'', Broadcast I_AGREEMENT_STOPPED ''A1'']
   \<and> findByPk (agreements (snd (AgreementStopped ex_Stopped ex_options ex_collected)))
        (rv_agreementReference (returnValues ex_Stopped)) = Some (ex_agreement\<lparr>isActive := False\<rparr>)
   \<and> manager ex_options_no_manager = None
   \<and> trace (snd (AgreementStopped ex_Stopped ex_options_no_manager ex_collected)) = [Saved ''A1'']"
proof -
  have n: "findByPk (agreements ex_world) (rv_agreementReference (returnValues ex_Stopped)) = None"
    by (simp add: ex_world_def ex_Stopped_def fundsEvent_def)
  have f: "findByPk (agreements ex_collected) (rv_agreementReference (returnValues ex_Stopped)) = Some ex_agreement"
    by (simp add: ex_collected_def ex_funded_def ex_Stopped_def fundsEvent_def ex_agreement_def)
  have m: "manager ex_options = Some ex_manager"
    by (simp add: ex_options_def)
  have m0: "manager ex_options_no_manager = None"
    by (simp add: ex_options_no_manager_def)
  have u: "unpin ex_manager (dataReference ex_agreement) (provider ex_collected)
        = (Inl (NotPinnedError ''not pinned''), [])"
    by (simp add: ex_manager_def ex_collected_def ex_funded_def)
  have e: "notFound (rv_agreementReference (returnValues ex_Stopped)) ''AgreementStopped''
        = EventError ''Agreement with ID A1 was not found!'' ''AgreementStopped''"
    by (simp add: notFound_def showId_def ex_Stopped_def fundsEvent_def)
  have v: "agreementReference ex_agreement = ''A1''" "dataReference ex_agreement = ''/ipfs/Qm1''"
    "trace ex_collected = []"
    by (simp_all add: ex_agreement_def ex_collected_def ex_funded_def)
  note t1 = stop_semantics [of ex_world ex_Stopped ex_options ex_agreement ex_manager
              "Inl (NotPinnedError ''not pinned'')" "[]"]
  note t2 = stop_semantics [of ex_collected ex_Stopped ex_options ex_agreement ex_manager
              "Inl (NotPinnedError ''not pinned'')" "[]"]
  note t3 = stop_semantics [of ex_collected ex_Stopped ex_options_no_manager ex_agreement ex_manager
              "Inl (NotPinnedError ''not pinned'')" "[]"]
  have a1: "AgreementStopped ex_Stopped ex_options ex_world
        = (Inl (EventError ''Agreement with ID A1 was not found!'' ''AgreementStopped''), ex_world)"
    using t1 n e by simp
  have a2: "fst (AgreementStopped ex_Stopped ex_options ex_collected) = Inr ()"
    "trace (snd (AgreementStopped ex_Stopped ex_options ex_collected))
        = [Saved ''A1'', UnpinRequested ''/ipfs/Qm1'', Broadcast I_AGREEMENT_STOPPED ''A1'']"
    using t2 f m u v by simp_all
  have a2': "findByPk (agreements (snd (AgreementStopped ex_Stopped ex_options ex_collected)))
        (rv_agreementReference (returnValues ex_Stopped)) = Some (ex_agreement\<lparr>isActive := False\<rparr>)"
    using t2 f by blast
  have a3: "trace (snd (AgreementStopped ex_Stopped ex_options_no_manager ex_collected)) = [Saved ''A1'']"
    using t3 f m0 v by simp
  from n a1 f m u a2 a2' m0 a3 show ?thesis by blast
qed

text \<open>
  Claim C10. In the \<open>AgreementStopped\<close> handler the deactivated agreement is saved
  before the unpin is requested. So when the unpin fails with an error that is not a
  not-pinned error, the handler raises that error, the agreement in the table is the
  deactivated one (nothing rolls the save back), and the trace ends with the save and
  the unpin request, with no broadcast after them.
\<close>

theorem stop_saved_before_failed_unpin:
  assumes "findByPk (agreements w) (rv_agreementReference (returnValues ev)) = Some a"
    and "manager options = Some m"
    and "unpin m (dataReference a) (provider w) = (Inl e, p)"
    and "\<not> hasNotPinnedCode e"
  shows "fst (AgreementStopped ev options w) = Inl e
       \<and> findByPk (agreements (snd (AgreementStopped ev options w)))
            (rv_agreementReference (returnValues ev)) = Some (a\<lparr>isActive := False\<rparr>)
       \<and> trace (snd (AgreementStopped ev options w))
            = trace w @ [Saved (agreementReference a), UnpinRequested (dataReference a)]
       \<and> Broadcast I_AGREEMENT_STOPPED (agreementReference a)
            \<notin> set (drop (length (trace w)) (trace (snd (AgreementStopped ev options w))))"
proof -
  have "findByPk (save (a\<lparr>isActive := False\<rparr>) (agreements w))
            (rv_agreementReference (returnValues ev)) = Some (a\<lparr>isActive := False\<rparr>)"
    using assms(1) by (intro findByPk_save_same) simp_all
  then show ?thesis
    using assms(4) by (simp add: AgreementStopped_found [OF assms(1,2,3)])
qed

text \<open>The theorem at the agreement \<open>A1\<close> and a manager whose calls are refused.\<close>

theorem stop_saved_before_failed_unpin_witness:
  "findByPk (agreements ex_funded) (rv_agreementReference (returnValues ex_Stopped)) = Some ex_agreement
   \<and> manager ex_options_down = Some ex_manager_down
   \<and> unpin ex_manager_down (dataReference ex_agreement) (provider ex_funded)
        = (Inl (Error ''connect ECONNREFUSED''), [''/ipfs/Qm1''])
   \<and> \<not> hasNotPinnedCode (Error ''connect ECONNREFUSED'')
   \<and> fst (AgreementStopped ex_Stopped ex_options_down ex_funded) = Inl (Error ''connect ECONNREFUSED'')
   \<and> map_option isActive (findByPk (agreements (snd (AgreementStopped ex_Stopped ex_options_down ex_funded)))
        (Some ''A1'')) = Some False
   \<and> trace (snd (AgreementStopped ex_Stopped ex_options_down ex_funded))
        = [Saved ''A1'', UnpinRequested ''/ipfs/Qm1'']"
proof -
  have f: "findByPk (agreements ex_funded) (rv_agreementReference (returnValues ex_Stopped)) = Some ex_agreement"
    by (simp add: ex_funded_def ex_Stopped_def fundsEvent_def ex_agreement_def)
  have m: "manager ex_options_down = Some ex_manager_down"
    by (simp add: ex_options_down_def)
  have u: "unpin ex_manager_down (dataReference ex_agreement) (provider ex_funded)
        = (Inl (Error ''connect ECONNREFUSED''), [''/ipfs/Qm1''])"
    by (simp add: ex_manager_down_def ex_funded_def)
  have h: "\<not> hasNotPinnedCode (Error ''connect ECONNREFUSED'')" by simp
  have v: "agreementReference ex_agreement = ''A1''" "dataReference ex_agreement = ''/ipfs/Qm1''"
    "trace ex_funded = []" "rv_agreementReference (returnValues ex_Stopped) = Some ''A1''"
    by (simp_all add: ex_agreement_def ex_funded_def ex_Stopped_def fundsEvent_def)
  from stop_saved_before_failed_unpin [OF f m u h] f m u h show ?thesis
    by (simp add: v)
qed

section \<open>The error boundary\<close>

lemma errorHandler_resolves: "fst (errorHandler fn lg ev w) = Inr ()"
  by (simp add: errorHandler_def split: prod.splits sum.splits)

lemma getProcessor_default:
  "getProcessor hs None = errorHandler (unwrapped_processor hs None) ''processor''"
  by (simp add: getProcessor_def)

lemma dispatchAll_never_rejects:
  assumes "\<And>e w. fst (proc e w) = Inr ()"
  shows "dispatchAll proc evs done w = (Inr (), done @ evs, foldl (\<lambda>w e. snd (proc e w)) w evs)"
proof (induction evs arbitrary: "done" w)
  case Nil
  then show ?case by simp
next
  case (Cons e evs)
  obtain r w' where p: "proc e w = (r, w')" by force
  with assms [of e w] have r: "r = Inr ()" by simp
  show ?case using Cons.IH [of "done @ [e]" w'] p r by simp
qed

text \<open>
  Claim C6. The processor \<open>getProcessor\<close> returns, wrapped by \<open>errorHandler\<close> (no
  other error handler being given in the options), never rejects, whatever the
  handlers, the event and the state are. An error raised by a handler is caught and
  logged; \<open>buildHandler\<close> rejects with the error \<open>Unknown event\<close> for an event name
  that has no handler function, and that error is caught like any other; an event
  that no handler lists among its events starts no handler and leaves the state as it
  is. A feed of events given to the processor one after the other is processed to its
  end.
\<close>

theorem error_boundary:
  "fst (getProcessor hs None ev w) = Inr ()
   \<and> fst (getProcessor hs
            (Some \<lparr>opt_errorHandler = None, opt_errorLogger = lg, opt_processorDeps = deps\<rparr>) ev w)
        = Inr ()
   \<and> (unwrapped_processor hs None ev w = (Inl e, w') \<longrightarrow>
        getProcessor hs None ev w = (Inr (), logger (LoggedError ''processor'' e) w'))
   \<and> (\<not> isValidEvent (event ev) table \<longrightarrow>
        process (buildHandler table names) ev deps' w
          = (Inl (Error (''Unknown event '' @ event ev)), w))
   \<and> (list_all (\<lambda>h. event ev \<notin> set (events h)) hs \<longrightarrow>
        getProcessor hs None ev w = (Inr (), w))
   \<and> dispatchAll (getProcessor hs None) evs [] w
        = (Inr (), evs, foldl (\<lambda>w e. snd (getProcessor hs None e w)) w evs)"
proof (intro conjI impI)
  show "getProcessor hs None ev w = (Inr (), w)"
    if "list_all (\<lambda>h. event ev \<notin> set (events h)) hs"
  proof -
    from that have "filter (\<lambda>h. event ev \<in> set (events h)) hs = []"
      by (simp add: filter_empty_conv list_all_iff)
    then show ?thesis
      unfolding getProcessor_default by (simp add: errorHandler_def unwrapped_processor_def)
  qed
  show "fst (getProcessor hs None ev w) = Inr ()"
    unfolding getProcessor_default by (rule errorHandler_resolves)
  show "fst (getProcessor hs
            (Some \<lparr>opt_errorHandler = None, opt_errorLogger = lg, opt_processorDeps = deps\<rparr>) ev w)
        = Inr ()"
    by (simp add: getProcessor_def errorHandler_resolves)
  show "getProcessor hs None ev w = (Inr (), logger (LoggedError ''processor'' e) w')"
    if "unwrapped_processor hs None ev w = (Inl e, w')"
    using that unfolding getProcessor_default by (simp add: errorHandler_def)
  show "process (buildHandler table names) ev deps' w
          = (Inl (Error (''Unknown event '' @ event ev)), w)"
    if "\<not> isValidEvent (event ev) table"
    using that by (simp add: buildHandler_def)
  have "\<And>e w. fst (getProcessor hs None e w) = Inr ()"
    unfolding getProcessor_default by (rule errorHandler_resolves)
  then have "dispatchAll (getProcessor hs None) evs [] w
        = (Inr (), [] @ evs, foldl (\<lambda>w e. snd (getProcessor hs None e w)) w evs)"
    by (rule dispatchAll_never_rejects)
  then show "dispatchAll (getProcessor hs None) evs [] w
        = (Inr (), evs, foldl (\<lambda>w e. snd (getProcessor hs None e w)) w evs)"
    by simp
qed

text \<open>
  The theorem at a handler registered for an event it has no function for, at the
  agreement handler on an empty table, where the stop event finds no agreement, and at
  an event that no handler lists.
\<close>

theorem error_boundary_witness:
  "unwrapped_processor [ex_offer_handler, agreement_handler ex_web3] None ex_TotalCapacitySet ex_world
     = (Inl (Error ''Unknown event TotalCapacitySet''), ex_world)
   \<and> getProcessor [ex_offer_handler, agreement_handler ex_web3] None ex_TotalCapacitySet ex_world
     = (Inr (), logger (LoggedError ''processor'' (Error ''Unknown event TotalCapacitySet'')) ex_world)
   \<and> unwrapped_processor [ex_offer_handler, agreement_handler ex_web3] None ex_Stopped ex_world
     = (Inl (EventError ''Agreement with ID A1 was not found!'' ''AgreementStopped''), ex_world)
   \<and> getProcessor [ex_offer_handler, agreement_handler ex_web3] None ex_Stopped ex_world
     = (Inr (), logger (LoggedError ''processor''
          (EventError ''Agreement with ID A1 was not found!'' ''AgreementStopped'')) ex_world)
   \<and> \<not> isValidEvent (event ex_TotalCapacitySet) ([] :: (string \<times> string list handler) list)
   \<and> getProcessor [ex_offer_handler, agreement_handler ex_web3] None ex_BillingPlanSet
         (ex_world :: string list world) = (Inr (), ex_world)
   \<and> fst (snd (dispatchAll (getProcessor [ex_offer_handler, agreement_handler ex_web3] None)
        [ex_TotalCapacitySet, ex_Stopped] [] ex_world)) = [ex_TotalCapacitySet, ex_Stopped]"
proof -
  have u1: "unwrapped_processor [ex_offer_handler, agreement_handler ex_web3] None ex_TotalCapacitySet ex_world
     = (Inl (Error ''Unknown event TotalCapacitySet''), ex_world)"
    by (simp add: unwrapped_processor_def ex_offer_handler_def agreement_handler_def
          buildHandler_def ex_TotalCapacitySet_def fundsEvent_def isValidEvent_def)
  have u2: "unwrapped_processor [ex_offer_handler, agreement_handler ex_web3] None ex_Stopped ex_world
     = (Inl (EventError ''Agreement with ID A1 was not found!'' ''AgreementStopped''), ex_world)"
    by (simp add: unwrapped_processor_def ex_offer_handler_def agreement_handler_def
          buildHandler_def ex_Stopped_def fundsEvent_def isValidEvent_def handlers_def
          AgreementStopped_def ex_world_def notFound_def showId_def)
  have v: "\<not> isValidEvent (event ex_TotalCapacitySet) ([] :: (string \<times> string list handler) list)"
    by (simp add: isValidEvent_def)
  note t1 = error_boundary [where hs = "[ex_offer_handler, agreement_handler ex_web3]"
              and ev = ex_TotalCapacitySet and w = ex_world
              and e = "Error ''Unknown event TotalCapacitySet''" and w' = ex_world
              and table = "[]" and evs = "[ex_TotalCapacitySet, ex_Stopped]"]
  note t2 = error_boundary [where hs = "[ex_offer_handler, agreement_handler ex_web3]"
              and ev = ex_Stopped and w = ex_world
              and e = "EventError ''Agreement with ID A1 was not found!'' ''AgreementStopped''"
              and w' = ex_world and table = "[]" and evs = "[]"]
  have g1: "getProcessor [ex_offer_handler, agreement_handler ex_web3] None ex_TotalCapacitySet ex_world
     = (Inr (), logger (LoggedError ''processor'' (Error ''Unknown event TotalCapacitySet'')) ex_world)"
    using t1 u1 by blast
  have g2: "getProcessor [ex_offer_handler, agreement_handler ex_web3] None ex_Stopped ex_world
     = (Inr (), logger (LoggedError ''processor''
          (EventError ''Agreement with ID A1 was not found!'' ''AgreementStopped'')) ex_world)"
    using t2 u2 by blast
  have d: "fst (snd (dispatchAll (getProcessor [ex_offer_handler, agreement_handler ex_web3] None)
        [ex_TotalCapacitySet, ex_Stopped] [] ex_world)) = [ex_TotalCapacitySet, ex_Stopped]"
    using t1 by simp
  have l: "list_all (\<lambda>h. event ex_BillingPlanSet \<notin> set (events h))
             [ex_offer_handler, agreement_handler ex_web3 :: string list EventsHandler]"
    by (simp add: ex_BillingPlanSet_def fundsEvent_def ex_offer_handler_def
          agreement_handler_def buildHandler_def)
  have g3: "getProcessor [ex_offer_handler, agreement_handler ex_web3] None ex_BillingPlanSet
         (ex_world :: string list world) = (Inr (), ex_world)"
    using error_boundary [where hs = "[ex_offer_handler, agreement_handler ex_web3]"
              and ev = ex_BillingPlanSet and w = ex_world and table = "[]" and evs = "[]"] l
    by blast
  from u1 g1 u2 g2 v d g3 show ?thesis by blast
qed

section \<open>The relevance filter\<close>

text \<open>
  Claim C7. An event is given to the handler pipeline exactly when it names this
  node's offer id as its provider, or its name starts with \<open>Agreement\<close> and the
  agreement it refers to is in the table. Then the result is the pipeline's, run after
  the first debug line. Every other event is dropped: the filter resolves, writes a
  second debug line, and leaves the table, the content store and the trace as they
  were, whatever the pipeline is. The offer id is not the empty string.
\<close>

theorem filter_dispatches_relevant_events:
  assumes "offer \<noteq> []"
  shows "(if rv_provider (returnValues ev) = Some offer
             \<or> (startsWith (event ev) ''Agreement''
                 \<and> findByPk (agreements w) (rv_agreementReference (returnValues ev)) \<noteq> None)
          then filterBlockchainEvents offer callback ev w
                 = callback ev (logger (GotEventForProvider (event ev) (rv_provider (returnValues ev))) w)
          else filterBlockchainEvents offer callback ev w
                 = (Inr (), w\<lparr>log := log w @ [GotEventForProvider (event ev) (rv_provider (returnValues ev)),
                                               EventsNotRelatedToOffer offer]\<rparr>)
               \<and> agreements (snd (filterBlockchainEvents offer callback ev w)) = agreements w
               \<and> provider (snd (filterBlockchainEvents offer callback ev w)) = provider w
               \<and> trace (snd (filterBlockchainEvents offer callback ev w)) = trace w)"
  using assms
  by (auto simp: filterBlockchainEvents_def Let_def isEventWithProvider_def logger_def)

text \<open>
  The theorem at the offer \<open>0xP\<close>: its own \<open>NewAgreement\<close> event and a stop event for
  a stored agreement are given to the pipeline (here the agreement handler behind the
  error boundary); a \<open>NewAgreement\<close> event of another offer is dropped.
\<close>

theorem filter_dispatches_relevant_events_witness:
  "''0xP'' \<noteq> []
   \<and> filterBlockchainEvents ''0xP'' (getProcessor [agreement_handler ex_web3] None) ex_NewAgreement ex_world
       = getProcessor [agreement_handler ex_web3] None ex_NewAgreement
           (logger (GotEventForProvider ''NewAgreement'' (Some ''0xP'')) ex_world)
   \<and> filterBlockchainEvents ''0xP'' (getProcessor [agreement_handler ex_web3] None) ex_Stopped ex_stored
       = getProcessor [agreement_handler ex_web3] None ex_Stopped
           (logger (GotEventForProvider ''AgreementStopped'' None) ex_stored)
   \<and> filterBlockchainEvents ''0xP'' (getProcessor [agreement_handler ex_web3] None)
         ex_foreign_NewAgreement ex_stored
       = (Inr (), ex_stored\<lparr>log := [GotEventForProvider ''NewAgreement'' (Some ''0xOther''),
                                     EventsNotRelatedToOffer ''0xP'']\<rparr>)"
proof -
  have o: "''0xP'' \<noteq> []" by simp
  note t1 = filter_dispatches_relevant_events [OF o, of ex_NewAgreement ex_world
              "getProcessor [agreement_handler ex_web3] None"]
  note t2 = filter_dispatches_relevant_events [OF o, of ex_Stopped ex_stored
              "getProcessor [agreement_handler ex_web3] None"]
  note t3 = filter_dispatches_relevant_events [OF o, of ex_foreign_NewAgreement ex_stored
              "getProcessor [agreement_handler ex_web3] None"]
  have a1: "filterBlockchainEvents ''0xP'' (getProcessor [agreement_handler ex_web3] None) ex_NewAgreement ex_world
       = getProcessor [agreement_handler ex_web3] None ex_NewAgreement
           (logger (GotEventForProvider ''NewAgreement'' (Some ''0xP'')) ex_world)"
    using t1 by (simp add: ex_NewAgreement_def)
  have a2: "filterBlockchainEvents ''0xP'' (getProcessor [agreement_handler ex_web3] None) ex_Stopped ex_stored
       = getProcessor [agreement_handler ex_web3] None ex_Stopped
           (logger (GotEventForProvider ''AgreementStopped'' None) ex_stored)"
    using t2 by (simp add: ex_Stopped_def fundsEvent_def startsWith_def ex_stored_def
                   ex_funded_def ex_agreement_def)
  have a3: "filterBlockchainEvents ''0xP'' (getProcessor [agreement_handler ex_web3] None)
         ex_foreign_NewAgreement ex_stored
       = (Inr (), ex_stored\<lparr>log := [GotEventForProvider ''NewAgreement'' (Some ''0xOther''),
                                     EventsNotRelatedToOffer ''0xP'']\<rparr>)"
    using t3 by (simp add: ex_foreign_NewAgreement_def ex_NewAgreement_def startsWith_def
                   ex_stored_def ex_funded_def)
  from o a1 a2 a3 show ?thesis by blast
qed

section \<open>Starting the processor\<close>

lemma run_precaches_iff:
  "Precache \<in> set (run initialized lastFetched force)
     \<longleftrightarrow> \<not> truthyNumber lastFetched \<and> \<not> truthyFlag force"
  by (simp add: run_def)

text \<open>
  Claim C8 says that \<open>run\<close> precaches when there is no checkpoint or when
  \<open>forcePrecache\<close> is set. The code precaches when there is no checkpoint and
  \<open>forcePrecache\<close> is not set: with the flag set, \<open>run\<close> attaches the listeners
  without precaching, whether a checkpoint exists or not. Without the flag it
  precaches exactly when there is no checkpoint.
\<close>

theorem run_with_forcePrecache_skips_precache:
  "run True None (Some True) = [OnError, OnNewEvent, OnNewBlock]
   \<and> run True (Some 1200) (Some True) = [OnError, OnNewEvent, OnNewBlock]
   \<and> run True None None = [Precache, OnError, OnNewEvent, OnNewBlock]
   \<and> run True None (Some False) = [Precache, OnError, OnNewEvent, OnNewBlock]
   \<and> run True (Some 1200) None = [OnError, OnNewEvent, OnNewBlock]"
  by (simp add: run_def truthyNumber_def truthyFlag_def)

section \<open>The handoff from the backlog to the live events\<close>

lemma filter_resolves:
  assumes "\<And>e w. fst (callback e w) = Inr ()"
  shows "fst (filterBlockchainEvents offer callback ev w) = Inr ()"
  using assms by (simp add: filterBlockchainEvents_def Let_def)

lemma getProcessor_resolves:
  assumes "opt_errorHandler opts = None"
  shows "fst (getProcessor hs (Some opts) ev w) = Inr ()"
  using assms by (simp add: getProcessor_def errorHandler_resolves)

lemma queueing:
  "foldl (deliver proc) st (map NewEvent es)
     = (if pusherAttached st then st\<lparr>dataQueue := dataQueue st @ es\<rparr> else st)"
  by (induction es arbitrary: st) auto

lemma precache_queue:
  "precache_promise proc (map NewEvent es) w
     = \<lparr>dataQueue = es, pusherAttached = True, dispatched = [], promise = Pending, pworld = w\<rparr>"
  by (simp add: precache_promise_def queueing precache_start_def)

lemma precache_after:
  "precache_promise proc (map NewEvent es @ [InitFinished] @ map NewEvent later) w
     = deliver proc (precache_promise proc (map NewEvent es) w) InitFinished"
  by (simp add: precache_promise_def queueing split: prod.splits)

text \<open>
  Claim C9. The events delivered while the backlog is ingested, however many, are
  appended to the queue in the order of their arrival and none is dispatched yet. When
  \<open>initFinished\<close> arrives, the queued events are given to the processor, each once, in
  the order of their arrival, each call starting in the state the previous one left,
  and the promise resolves; events delivered afterwards are not added to the queue.
  The processor is one that never rejects, as the processor behind the error boundary
  is.
\<close>

theorem precache_handoff:
  assumes "\<And>e w. fst (proc e w) = Inr ()"
  shows "dataQueue (precache_promise proc (map NewEvent es) w) = es
       \<and> dispatched (precache_promise proc (map NewEvent es) w) = []
       \<and> promise (precache_promise proc (map NewEvent es) w) = Pending
       \<and> dispatched (precache_promise proc (map NewEvent es @ [InitFinished] @ map NewEvent later) w) = es
       \<and> promise (precache_promise proc (map NewEvent es @ [InitFinished] @ map NewEvent later) w) = Resolved
       \<and> pworld (precache_promise proc (map NewEvent es @ [InitFinished] @ map NewEvent later) w)
           = foldl (\<lambda>w e. snd (proc e w)) w es
       \<and> dataQueue (precache_promise proc (map NewEvent es @ [InitFinished] @ map NewEvent later) w) = es"
proof -
  have d: "dispatchAll proc es [] w = (Inr (), [] @ es, foldl (\<lambda>w e. snd (proc e w)) w es)"
    using assms by (rule dispatchAll_never_rejects)
  show ?thesis
    unfolding precache_after unfolding precache_queue
    using d by (simp add: settle_def)
qed

text \<open>
  The theorem at the processor of the offer \<open>0xP\<close> and two events that arrive during
  the backlog, the creation of an agreement with 100 of funds and a deposit of 100 to
  it, with the stop of another agreement arriving afterwards: both are dispatched, in
  that order, and the agreement ends with 200.
\<close>

theorem precache_handoff_witness:
  "(\<forall>e w. fst (ex_processor e w) = Inr ())
   \<and> dataQueue (precache_promise ex_processor (map NewEvent [ex_NewAgreement, ex_Deposited]) ex_world)
       = [ex_NewAgreement, ex_Deposited]
   \<and> dispatched (precache_promise ex_processor
        (map NewEvent [ex_NewAgreement, ex_Deposited] @ [InitFinished] @ map NewEvent [ex_Stopped]) ex_world)
       = [ex_NewAgreement, ex_Deposited]
   \<and> promise (precache_promise ex_processor
        (map NewEvent [ex_NewAgreement, ex_Deposited] @ [InitFinished] @ map NewEvent [ex_Stopped]) ex_world)
       = Resolved
   \<and> map availableFunds (agreements (pworld (precache_promise ex_processor
        (map NewEvent [ex_NewAgreement, ex_Deposited] @ [InitFinished] @ map NewEvent [ex_Stopped]) ex_world)))
       = [200]"
proof -
  have r: "\<And>e w. fst (ex_processor e w) = Inr ()"
    unfolding ex_processor_def
    by (intro filter_resolves getProcessor_resolves) (simp add: ex_processor_options_def)
  note t = precache_handoff [of ex_processor "[ex_NewAgreement, ex_Deposited]" ex_world "[ex_Stopped]", OF r]
  have f: "map availableFunds (agreements (foldl (\<lambda>w e. snd (ex_processor e w)) ex_world
             [ex_NewAgreement, ex_Deposited])) = [200]"
    by (simp add: ex_processor_def ex_processor_options_def filterBlockchainEvents_def
          getProcessor_def errorHandler_def unwrapped_processor_def agreement_handler_def
          buildHandler_def isValidEvent_def handlers_def isEventWithProvider_def
          ex_NewAgreement_def ex_Deposited_def fundsEvent_def ex_world_def ex_options_def
          ex_manager_def ex_web3_def NewAgreement_def AgreementFundsDeposited_def
          getBlockDate_def upsert_def save_def logger_def emit_def broadcast_def
          startsWith_def Let_def isActive_default_def)
  from t r f show ?thesis by simp
qed

end
